theory Spec2Isabelle
  imports Complex_Main "HOL-Library.Sublist" "HOL-Library.AList" "HOL-Library.Signed_Division"
    "HOL-Library.Log_Nat"
begin

section \<open>Strings\<close>

text \<open>
  The application compares strings with \<open>===\<close>, tests them for emptiness, appends them
  and calls three methods of \<open>String.prototype\<close> on them: \<open>trim\<close>, \<open>toLowerCase\<close> and
  \<open>includes\<close>. What the three methods do is decided by the JavaScript engine (Unicode
  white space, Unicode case mapping, UTF-16 code units). The model takes them as
  parameters, and every property proved below holds for every choice of them. A \<open>string\<close>
  is then any rendering of a JavaScript string as a list under which the empty string is
  the empty list, different strings are different lists and appending is \<open>@\<close>; ASCII
  text, which is all that the examples use, stands for itself.
\<close>

record string_methods =
  trim :: "string \<Rightarrow> string"
  toLowerCase :: "string \<Rightarrow> string"
  str_includes :: "string \<Rightarrow> string \<Rightarrow> bool"

text \<open>
  The three methods as they act on ASCII text, for the examples: \<open>trim\<close> removes the
  ASCII white space of ECMAScript (tab, line feed, vertical tab, form feed, carriage
  return, space) from both ends, \<open>toLowerCase\<close> maps \<open>A..Z\<close> to \<open>a..z\<close>, and
  \<open>s.includes(q)\<close> tests whether \<open>q\<close> is a contiguous part of \<open>s\<close>.
\<close>

definition is_space :: "char \<Rightarrow> bool" where
  "is_space c = (of_char c \<in> {9, 10, 11, 12, 13, 32 :: nat})"

definition ascii_trim :: "string \<Rightarrow> string" where
  "ascii_trim s = rev (dropWhile is_space (rev (dropWhile is_space s)))"

definition lower_char :: "char \<Rightarrow> char" where
  "lower_char c =
     (if 65 \<le> (of_char c :: nat) \<and> (of_char c :: nat) \<le> 90
      then char_of (of_char c + 32 :: nat) else c)"

definition ascii_toLowerCase :: "string \<Rightarrow> string" where
  "ascii_toLowerCase s = map lower_char s"

fun ascii_includes :: "string \<Rightarrow> string \<Rightarrow> bool" where
  "ascii_includes [] q = (q = [])"
| "ascii_includes (c # cs) q = (prefix q (c # cs) \<or> ascii_includes cs q)"

definition ascii_strings :: string_methods where
  "ascii_strings =
     \<lparr>trim = ascii_trim, toLowerCase = ascii_toLowerCase, str_includes = ascii_includes\<rparr>"

section \<open>Numbers\<close>

text \<open>
  A JavaScript number is an IEEE 754 double. A finite double is held as the rational it
  denotes (\<open>-0\<close> is not told apart from \<open>0\<close>; nothing the application does with a number
  tells them apart). The result of an addition is the exact sum rounded to the nearest
  double, a tie going to the double whose significand is even. \<open>round_double\<close> is this
  rounding: for \<open>2^e \<le> |y| < 2^(e+1)\<close> the doubles around \<open>y\<close> are \<open>2^(e-52)\<close> apart
  (a significand of 53 bits), and \<open>2^(-1074)\<close> apart below \<open>2^(-1022)\<close>. Rounding up to
  \<open>Infinity\<close> is left out: the only arithmetic of the application is \<open>x + 1\<close> and \<open>x++\<close>
  on a double \<open>x\<close>, and for the largest finite double that sum rounds back to it.
\<close>

text \<open>\<open>exponent y\<close> is the \<open>e\<close> with \<open>2^e \<le> |y| < 2^(e+1)\<close>, for \<open>y \<noteq> 0\<close>.\<close>

definition exponent :: "rat \<Rightarrow> int" where
  "exponent y =
     (if 1 \<le> \<bar>y\<bar> then bitlen \<lfloor>\<bar>y\<bar>\<rfloor> - 1 else - bitlen (\<lceil>1 / \<bar>y\<bar>\<rceil> - 1))"

definition spacing :: "rat \<Rightarrow> rat" where
  "spacing y = 2 powi (max (exponent y) (- 1022) - 52)"

text \<open>The integer nearest to \<open>q\<close>, the even one of the two when \<open>q\<close> is half way.\<close>

definition nearest_even :: "rat \<Rightarrow> int" where
  "nearest_even q =
     (let n = \<lfloor>q\<rfloor> in
      if q - of_int n < 1 / 2 then n
      else if 1 / 2 < q - of_int n then n + 1
      else if even n then n else n + 1)"

definition round_double :: "rat \<Rightarrow> rat" where
  "round_double y =
     (if y = 0 then 0
      else sgn y * of_int (nearest_even (\<bar>y\<bar> / spacing y)) * spacing y)"

text \<open>\<open>x + 1\<close>, and the new value of \<open>x\<close> after \<open>x++\<close>, for a finite double \<open>x\<close>.\<close>

definition double_succ :: "rat \<Rightarrow> rat" where
  "double_succ x = round_double (x + 1)"

text \<open>
  \<open>JSON.parse\<close> can also yield the two infinities (for a literal such as \<open>1e400\<close>); it
  never yields \<open>NaN\<close>. Adding 1 leaves an infinity as it is.
\<close>

datatype number = Finite rat | PosInfinity | NegInfinity

definition increment :: "number \<Rightarrow> number" where
  "increment v = (case v of Finite x \<Rightarrow> Finite (double_succ x) | _ \<Rightarrow> v)"

section \<open>JavaScript values and the object store\<close>

text \<open>
  A JavaScript value is a primitive or a reference to an object; \<open>===\<close> on these values is
  HOL equality (references compare by address). The numbers among them are the finite
  doubles: the registry makes no other, and a snapshot reaches it only through the JSON
  round trip at the end of \<open>loadState\<close>, which turns an infinity into \<open>null\<close>.
  \<open>Undefined\<close> also stands for a missing property.
\<close>

type_synonym ref = nat

datatype jsv = Undefined | Null | Bool bool | Num rat | Str string | ObjRef ref

text \<open>\<open>Number.isInteger\<close>.\<close>

definition isInteger :: "jsv \<Rightarrow> bool" where
  "isInteger v = (case v of Num r \<Rightarrow> rat_of_int \<lfloor>r\<rfloor> = r | _ \<Rightarrow> False)"

text \<open>The truthiness test of \<open>if (v)\<close>, \<open>!v\<close> and \<open>v && ...\<close>.\<close>

definition truthy :: "jsv \<Rightarrow> bool" where
  "truthy v =
     (case v of Undefined \<Rightarrow> False | Null \<Rightarrow> False | Bool b \<Rightarrow> b
      | Num r \<Rightarrow> r \<noteq> 0 | Str s \<Rightarrow> s \<noteq> [] | ObjRef _ \<Rightarrow> True)"

text \<open>
  Objects live in a store and are named by their address. Arrays, deck objects and card
  objects each have their own address space; an address is an index into the list of all
  objects of that kind allocated so far, so a fresh object is appended and nothing is ever
  freed. A card's \<open>front\<close> or \<open>back\<close> property (\<open>card_front\<close>, \<open>card_back\<close>) is
  \<open>None\<close> when the property is missing.
\<close>

record card_obj =
  card_id :: jsv
  card_front :: "string option"
  card_back :: "string option"
  card_createdAt :: nat

record deck_obj =
  deck_id :: jsv
  name :: string
  cards :: ref
  createdAt :: nat

record store =
  arrays :: "ref list list"
  deck_objs :: "deck_obj list"
  card_objs :: "card_obj list"

definition new_array :: "ref list \<Rightarrow> store \<Rightarrow> store" where
  "new_array xs \<sigma> = \<sigma>\<lparr>arrays := arrays \<sigma> @ [xs]\<rparr>"

definition new_deck :: "deck_obj \<Rightarrow> store \<Rightarrow> store" where
  "new_deck d \<sigma> = \<sigma>\<lparr>deck_objs := deck_objs \<sigma> @ [d]\<rparr>"

definition new_card :: "card_obj \<Rightarrow> store \<Rightarrow> store" where
  "new_card c \<sigma> = \<sigma>\<lparr>card_objs := card_objs \<sigma> @ [c]\<rparr>"

definition set_array :: "ref \<Rightarrow> ref list \<Rightarrow> store \<Rightarrow> store" where
  "set_array a xs \<sigma> = \<sigma>\<lparr>arrays := (arrays \<sigma>)[a := xs]\<rparr>"

definition set_deck :: "ref \<Rightarrow> deck_obj \<Rightarrow> store \<Rightarrow> store" where
  "set_deck r d \<sigma> = \<sigma>\<lparr>deck_objs := (deck_objs \<sigma>)[r := d]\<rparr>"

text \<open>\<open>Array.prototype.findIndex\<close>, with \<open>None\<close> for \<open>-1\<close>.\<close>

fun findIndex :: "('a \<Rightarrow> bool) \<Rightarrow> 'a list \<Rightarrow> nat option" where
  "findIndex P [] = None"
| "findIndex P (x # xs) =
     (if P x then Some 0 else map_option Suc (findIndex P xs))"

text \<open>\<open>xs.splice(i, 1)\<close>.\<close>

definition splice1 :: "nat \<Rightarrow> 'a list \<Rightarrow> 'a list" where
  "splice1 i xs = take i xs @ drop (Suc i) xs"

section \<open>DeckManager\<close>

type_synonym cbref = nat

record DeckManager =
  decks :: ref
  nextId :: rat
  selectedDeckId :: jsv
  observers :: "cbref list"

record world =
  manager :: DeckManager
  heap :: store

datatype event =
  deckCreated | deckUpdated | deckDeleted | deckSelected | cardAdded | cardUpdated | cardDeleted

datatype payload = PDeck ref | PDeckCard ref ref

datatype error =
  EmptyDeckName | DeckNotFound jsv | CardNotFound jsv | Thrown string

text \<open>
  A subscribed callback is a function object, named by a \<open>cbref\<close>; what it does when it is
  called is given by the environment \<open>\<beta>\<close>. Callbacks are modelled as observers of the
  registry: a call sees the event, the payload and the whole current state, and either
  returns (\<open>None\<close>) or throws (\<open>Some e\<close>); it does not call back into the registry. Every
  call is recorded, with the state it saw, in the order it happened.
\<close>

record invocation =
  inv_cb :: cbref
  inv_event :: event
  inv_payload :: payload
  inv_world :: world

type_synonym observer_env = "cbref \<Rightarrow> event \<Rightarrow> payload \<Rightarrow> world \<Rightarrow> error option"

text \<open>
  \<open>this.observers.forEach((callback) => { callback(event, data); })\<close>: there is no
  \<open>try\<close> around the call, so the first callback that throws ends the loop and its exception
  leaves \<open>notifyObservers\<close>.
\<close>

fun forEach_observers ::
  "observer_env \<Rightarrow> event \<Rightarrow> payload \<Rightarrow> world \<Rightarrow> cbref list \<Rightarrow> invocation list \<times> error option"
where
  "forEach_observers \<beta> ev data w [] = ([], None)"
| "forEach_observers \<beta> ev data w (c # cs) =
     (let i = \<lparr>inv_cb = c, inv_event = ev, inv_payload = data, inv_world = w\<rparr> in
      case \<beta> c ev data w of
        Some e \<Rightarrow> ([i], Some e)
      | None \<Rightarrow> (i # fst (forEach_observers \<beta> ev data w cs),
                 snd (forEach_observers \<beta> ev data w cs)))"

definition notifyObservers ::
  "observer_env \<Rightarrow> event \<Rightarrow> payload \<Rightarrow> world \<Rightarrow> invocation list \<times> error option" where
  "notifyObservers \<beta> ev data w = forEach_observers \<beta> ev data w (observers (manager w))"

text \<open>
  The tail of every mutating operation: \<open>this.notifyObservers(ev, data); return res;\<close>.
  The result is the outcome (the returned value, or the exception that left the
  operation), the state, and the calls made.
\<close>

type_synonym 'a outcome = "(error + 'a) \<times> world \<times> invocation list"

definition notify_then_return ::
  "observer_env \<Rightarrow> event \<Rightarrow> payload \<Rightarrow> 'a \<Rightarrow> world \<Rightarrow> 'a outcome" where
  "notify_then_return \<beta> ev data res w =
     (case snd (notifyObservers \<beta> ev data w) of
        None \<Rightarrow> (Inr res, w, fst (notifyObservers \<beta> ev data w))
      | Some e \<Rightarrow> (Inl e, w, fst (notifyObservers \<beta> ev data w)))"

definition subscribe :: "cbref \<Rightarrow> world \<Rightarrow> world" where
  "subscribe callback w =
     w\<lparr>manager := (manager w)\<lparr>observers := observers (manager w) @ [callback]\<rparr>\<rparr>"

definition unsubscribe :: "cbref \<Rightarrow> world \<Rightarrow> world" where
  "unsubscribe callback w =
     w\<lparr>manager := (manager w)\<lparr>observers := filter (\<lambda>obs. obs \<noteq> callback) (observers (manager w))\<rparr>\<rparr>"

text \<open>
  \<open>getAllDecks() { return [...this.decks]; }\<close>: a new array with the same elements, that
  is, with references to the registry's own deck objects. The result is the address of the
  new array.
\<close>

definition getAllDecks :: "world \<Rightarrow> ref \<times> world" where
  "getAllDecks w =
     (length (arrays (heap w)),
      w\<lparr>heap := new_array (arrays (heap w) ! decks (manager w)) (heap w)\<rparr>)"

definition getDeckById :: "jsv \<Rightarrow> world \<Rightarrow> ref option" where
  "getDeckById i w =
     find (\<lambda>deck. deck_id (deck_objs (heap w) ! deck) = i) (arrays (heap w) ! decks (manager w))"

definition createDeck ::
  "string_methods \<Rightarrow> observer_env \<Rightarrow> string \<Rightarrow> nat \<Rightarrow> world \<Rightarrow> ref outcome" where
  "createDeck str \<beta> nm now w =
     (if nm = [] \<or> trim str nm = [] then (Inl EmptyDeckName, w, [])
      else
        let m = manager w; \<sigma> = heap w;
            cardsArr = length (arrays \<sigma>);
            newDeck = length (deck_objs \<sigma>);
            \<sigma>1 = new_deck \<lparr>deck_id = Num (nextId m), name = trim str nm, cards = cardsArr,
                             createdAt = now\<rparr> (new_array [] \<sigma>);
            \<sigma>2 = set_array (decks m) (arrays \<sigma>1 ! decks m @ [newDeck]) \<sigma>1;
            w' = \<lparr>manager = m\<lparr>nextId := double_succ (nextId m)\<rparr>, heap = \<sigma>2\<rparr>
        in notify_then_return \<beta> deckCreated (PDeck newDeck) newDeck w')"

definition updateDeck ::
  "string_methods \<Rightarrow> observer_env \<Rightarrow> jsv \<Rightarrow> string option \<Rightarrow> world \<Rightarrow> ref outcome" where
  "updateDeck str \<beta> i updates_name w =
     (case getDeckById i w of
        None \<Rightarrow> (Inl (DeckNotFound i), w, [])
      | Some deck \<Rightarrow>
          (case updates_name of
             None \<Rightarrow> notify_then_return \<beta> deckUpdated (PDeck deck) deck w
           | Some nm \<Rightarrow>
               if nm = [] \<or> trim str nm = [] then (Inl EmptyDeckName, w, [])
               else
                 let d = deck_objs (heap w) ! deck;
                     w' = w\<lparr>heap := set_deck deck (d\<lparr>name := trim str nm\<rparr>) (heap w)\<rparr>
                 in notify_then_return \<beta> deckUpdated (PDeck deck) deck w'))"

definition deleteDeck :: "observer_env \<Rightarrow> jsv \<Rightarrow> world \<Rightarrow> ref outcome" where
  "deleteDeck \<beta> i w =
     (let m = manager w; \<sigma> = heap w; ds = arrays \<sigma> ! decks m in
      case findIndex (\<lambda>deck. deck_id (deck_objs \<sigma> ! deck) = i) ds of
        None \<Rightarrow> (Inl (DeckNotFound i), w, [])
      | Some index \<Rightarrow>
          let deletedDeck = ds ! index;
              \<sigma>' = set_array (decks m) (splice1 index ds) \<sigma>;
              m' = (if selectedDeckId m = i then m\<lparr>selectedDeckId := Null\<rparr> else m)
          in notify_then_return \<beta> deckDeleted (PDeck deletedDeck) deletedDeck
               \<lparr>manager = m', heap = \<sigma>'\<rparr>)"

definition selectDeck :: "observer_env \<Rightarrow> jsv \<Rightarrow> world \<Rightarrow> ref outcome" where
  "selectDeck \<beta> i w =
     (case getDeckById i w of
        None \<Rightarrow> (Inl (DeckNotFound i), w, [])
      | Some deck \<Rightarrow>
          notify_then_return \<beta> deckSelected (PDeck deck) deck
            (w\<lparr>manager := (manager w)\<lparr>selectedDeckId := i\<rparr>\<rparr>))"


text \<open>
  \<open>addCardToDeck\<close>: the new card's id is \<open>card-<Date.now()>-<random suffix>\<close>; the two
  varying parts are given by the caller of the model as strings.
\<close>

record cardData =
  cd_front :: "string option"
  cd_back :: "string option"

definition or_empty :: "string option \<Rightarrow> string" where
  "or_empty s = (case s of None \<Rightarrow> [] | Some t \<Rightarrow> if t = [] then [] else t)"

definition addCardToDeck ::
  "observer_env \<Rightarrow> jsv \<Rightarrow> cardData \<Rightarrow> nat \<Rightarrow> string \<Rightarrow> string \<Rightarrow> world \<Rightarrow> ref outcome" where
  "addCardToDeck \<beta> deckId cd now now_str rnd w =
     (case getDeckById deckId w of
        None \<Rightarrow> (Inl (DeckNotFound deckId), w, [])
      | Some deck \<Rightarrow>
          let \<sigma> = heap w;
              cardRef = length (card_objs \<sigma>);
              \<sigma>1 = new_card \<lparr>card_id = Str (''card-'' @ now_str @ ''-'' @ rnd),
                             card_front = Some (or_empty (cd_front cd)),
                             card_back = Some (or_empty (cd_back cd)),
                             card_createdAt = now\<rparr> \<sigma>;
              arr = cards (deck_objs \<sigma>1 ! deck);
              \<sigma>2 = set_array arr (arrays \<sigma>1 ! arr @ [cardRef]) \<sigma>1
          in notify_then_return \<beta> cardAdded (PDeckCard deck cardRef) cardRef (w\<lparr>heap := \<sigma>2\<rparr>))"

definition deleteCardFromDeck :: "observer_env \<Rightarrow> jsv \<Rightarrow> jsv \<Rightarrow> world \<Rightarrow> ref outcome" where
  "deleteCardFromDeck \<beta> deckId cardId w =
     (case getDeckById deckId w of
        None \<Rightarrow> (Inl (DeckNotFound deckId), w, [])
      | Some deck \<Rightarrow>
          let \<sigma> = heap w;
              arr = cards (deck_objs \<sigma> ! deck)
          in case findIndex (\<lambda>c. card_id (card_objs \<sigma> ! c) = cardId) (arrays \<sigma> ! arr) of
               None \<Rightarrow> (Inl (CardNotFound cardId), w, [])
             | Some cardIndex \<Rightarrow>
                 let deletedCard = arrays \<sigma> ! arr ! cardIndex;
                     \<sigma>' = set_array arr (splice1 cardIndex (arrays \<sigma> ! arr)) \<sigma>
                 in notify_then_return \<beta> cardDeleted (PDeckCard deck deletedCard) deletedCard
                      (w\<lparr>heap := \<sigma>'\<rparr>))"

text \<open>
  The constructor followed by \<open>loadInitialDecks\<close>: the first, empty \<open>this.decks\<close> array is
  replaced by an array of three sample decks, each with its own empty \<open>cards\<close> array, and
  \<open>nextId\<close> becomes 4.
\<close>

definition DeckManager_new :: "nat \<Rightarrow> world" where
  "DeckManager_new now =
     \<lparr>manager = \<lparr>decks = 4, nextId = 4, selectedDeckId = Null, observers = []\<rparr>,
      heap = \<lparr>arrays = [[], [], [], [], [0, 1, 2]],
              deck_objs =
                [\<lparr>deck_id = Num 1, name = ''Spanish Vocabulary'', cards = 1, createdAt = now\<rparr>,
                 \<lparr>deck_id = Num 2, name = ''Biology Terms'', cards = 2, createdAt = now\<rparr>,
                 \<lparr>deck_id = Num 3, name = ''JavaScript Concepts'', cards = 3, createdAt = now\<rparr>],
              card_objs = []\<rparr>\<rparr>"

section \<open>Loading a persisted snapshot into the registry\<close>

text \<open>
  \<open>UIManager.loadPersistedState\<close> receives what \<open>storage.loadState()\<close> returned. The
  entries of a snapshot's \<open>decks\<close> array are deck objects given by value (the parsed
  JSON), or \<open>null\<close> (\<open>None\<close>); a deck's \<open>id\<close> is any JavaScript value, \<open>Undefined\<close> when
  it is missing. An entry that is a number, a string or a boolean has no \<open>id\<close> either and
  counts as a deck without one. \<open>decks\<close> is \<open>None\<close> when the property is missing or is
  not an array, and the snapshot itself is \<open>None\<close> when \<open>loadState\<close> gave nothing usable.
\<close>

record deck_val =
  dv_id :: jsv
  dv_name :: string
  dv_cards :: "card_obj list"
  dv_createdAt :: nat

record snapshot =
  snap_decks :: "deck_val option list option"
  snap_selectedDeckId :: jsv

text \<open>
  \<open>JSON.parse(JSON.stringify(savedState.decks))\<close>: every deck, its \<open>cards\<close> array and
  every card is a fresh object; a \<open>null\<close> entry stays \<open>null\<close>.
\<close>

fun clone_decks :: "deck_val option list \<Rightarrow> store \<Rightarrow> ref option list \<times> store" where
  "clone_decks [] \<sigma> = ([], \<sigma>)"
| "clone_decks (None # ds) \<sigma> = (None # fst (clone_decks ds \<sigma>), snd (clone_decks ds \<sigma>))"
| "clone_decks (Some d # ds) \<sigma> =
     (let cardRefs = [length (card_objs \<sigma>) ..< length (card_objs \<sigma>) + length (dv_cards d)];
          \<sigma>1 = \<sigma>\<lparr>card_objs := card_objs \<sigma> @ dv_cards d\<rparr>;
          cardsArr = length (arrays \<sigma>1);
          \<sigma>2 = new_array cardRefs \<sigma>1;
          deck = length (deck_objs \<sigma>2);
          \<sigma>3 = new_deck \<lparr>deck_id = dv_id d, name = dv_name d, cards = cardsArr,
                           createdAt = dv_createdAt d\<rparr> \<sigma>2
      in (Some deck # fst (clone_decks ds \<sigma>3), snd (clone_decks ds \<sigma>3)))"

text \<open>The numeric value of a number; only applied to values that passed \<open>isInteger\<close>.\<close>

definition num_of :: "jsv \<Rightarrow> rat" where
  "num_of v = (case v of Num r \<Rightarrow> r | _ \<Rightarrow> 0)"

text \<open>\<open>deckIds.length > 0 ? Math.max(...deckIds) + 1 : 1\<close>.\<close>

definition next_after :: "jsv list \<Rightarrow> rat" where
  "next_after deckIds =
     (case map num_of deckIds of [] \<Rightarrow> 1 | x # xs \<Rightarrow> double_succ (fold max xs x))"

text \<open>
  The whole method body is inside \<open>try\<close>, and its \<open>catch\<close> block only logs. Two
  statements can throw on a snapshot as described: \<open>.map((d) => d.id)\<close>, on a \<open>null\<close>
  entry, and \<open>Math.max(...deckIds)\<close>, which passes every id as an argument of one call
  and throws a \<open>RangeError\<close> when there are more of them than the engine accepts
  (\<open>maxArgs\<close>, a parameter of the model). By then \<open>this.deckManager.decks\<close> has been
  replaced by the clone, and the statements that would have set \<open>nextId\<close> and
  \<open>selectedDeckId\<close> are skipped. The outcome \<open>Caught\<close> stands for this end of the
  method: it carries the elements of the new \<open>decks\<close> array (which may hold a \<open>null\<close>,
  for which the arrays of the store have no place) beside the state, in which the clones
  are allocated and the manager is as it was. The model of the registry does not go on
  from there.
\<close>

datatype loaded = Loaded (the_world: world) | Caught (new_decks: "ref option list") (the_world: world)

definition loadPersistedState :: "int \<Rightarrow> snapshot option \<Rightarrow> world \<Rightarrow> loaded" where
  "loadPersistedState maxArgs savedState w =
     (case savedState of
        None \<Rightarrow> Loaded w
      | Some st \<Rightarrow>
          (case snap_decks st of
             None \<Rightarrow> Loaded w
           | Some ds \<Rightarrow>
               let cloned = clone_decks ds (heap w) in
               if None \<in> set (fst cloned)
               then Caught (fst cloned) (w\<lparr>heap := snd cloned\<rparr>)
               else
                 let decksArr = length (arrays (snd cloned));
                     \<sigma> = new_array (map the (fst cloned)) (snd cloned);
                     deckIds = filter isInteger
                                 (map (\<lambda>d. deck_id (deck_objs \<sigma> ! d)) (arrays \<sigma> ! decksArr))
                 in if deckIds \<noteq> [] \<and> maxArgs < int (length deckIds)
                    then Caught (fst cloned) (w\<lparr>heap := snd cloned\<rparr>)
                    else
                      let w1 = \<lparr>manager = (manager w)\<lparr>decks := decksArr,
                                                       nextId := next_after deckIds\<rparr>,
                                heap = \<sigma>\<rparr>
                      in Loaded
                           (if truthy (snap_selectedDeckId st) \<and> isInteger (snap_selectedDeckId st)
                            then (case getDeckById (snap_selectedDeckId st) w1 of
                                    None \<Rightarrow> w1
                                  | Some deck \<Rightarrow>
                                      w1\<lparr>manager :=
                                           (manager w1)\<lparr>selectedDeckId := snap_selectedDeckId st\<rparr>\<rparr>)
                            else w1)))"

section \<open>Sequences of registry operations\<close>

datatype op =
  CreateDeck string nat
| UpdateDeck jsv "string option"
| DeleteDeck jsv
| SelectDeck jsv
| AddCard jsv cardData nat string string
| DeleteCard jsv jsv
| GetAllDecks
| Subscribe cbref
| Unsubscribe cbref

text \<open>
  The state an operation leaves behind, whether it returned or threw (a caller that
  catches the exception goes on with that state).
\<close>

fun step :: "string_methods \<Rightarrow> observer_env \<Rightarrow> op \<Rightarrow> world \<Rightarrow> world" where
  "step str \<beta> (CreateDeck nm now) w = fst (snd (createDeck str \<beta> nm now w))"
| "step str \<beta> (UpdateDeck i nm) w = fst (snd (updateDeck str \<beta> i nm w))"
| "step str \<beta> (DeleteDeck i) w = fst (snd (deleteDeck \<beta> i w))"
| "step str \<beta> (SelectDeck i) w = fst (snd (selectDeck \<beta> i w))"
| "step str \<beta> (AddCard i cd now now_str rnd) w =
     fst (snd (addCardToDeck \<beta> i cd now now_str rnd w))"
| "step str \<beta> (DeleteCard i c) w = fst (snd (deleteCardFromDeck \<beta> i c w))"
| "step str \<beta> GetAllDecks w = snd (getAllDecks w)"
| "step str \<beta> (Subscribe c) w = subscribe c w"
| "step str \<beta> (Unsubscribe c) w = unsubscribe c w"

definition run :: "string_methods \<Rightarrow> observer_env \<Rightarrow> op list \<Rightarrow> world \<Rightarrow> world" where
  "run str \<beta> ops w = fold (step str \<beta>) ops w"



text \<open>
  The start of the application (the \<open>DOMContentLoaded\<close> handler): \<open>new DeckManager()\<close>,
  then \<open>new UIManager(deckManager)\<close>, whose \<open>init\<close> begins with \<open>loadPersistedState\<close>.
\<close>

definition app_start :: "int \<Rightarrow> snapshot option \<Rightarrow> nat \<Rightarrow> loaded" where
  "app_start maxArgs saved now = loadPersistedState maxArgs saved (DeckManager_new now)"

section \<open>Code outside the registry that holds references\<close>

text \<open>
  A caller that holds a reference can mutate the object behind it. Whatever it does to an
  array (\<open>push\<close>, \<open>splice\<close>, \<open>sort\<close>, an assignment to an index or to \<open>length\<close>) leaves
  the array with some new contents; whatever it does to a deck object leaves some new deck
  object at the same address.
\<close>

definition write_array :: "ref \<Rightarrow> ref list \<Rightarrow> world \<Rightarrow> world" where
  "write_array a xs w = w\<lparr>heap := set_array a xs (heap w)\<rparr>"

definition write_deck :: "ref \<Rightarrow> deck_obj \<Rightarrow> world \<Rightarrow> world" where
  "write_deck r d w = w\<lparr>heap := set_deck r d (heap w)\<rparr>"

definition read_array :: "ref \<Rightarrow> world \<Rightarrow> ref list" where
  "read_array a w = arrays (heap w) ! a"

text \<open>\<open>getDeckById(i).name\<close>, when the deck is found.\<close>

definition name_by_id :: "jsv \<Rightarrow> world \<Rightarrow> string option" where
  "name_by_id i w = map_option (\<lambda>deck. name (deck_objs (heap w) ! deck)) (getDeckById i w)"

section \<open>Study mode\<close>

text \<open>
  The study session of \<open>UIManager\<close>: \<open>this.studyMode\<close> (undefined until study mode is
  first entered) and the flip state of the cards, \<open>this.cardFlipState\<close>. Only the effects
  on this state are modelled; rendering and screen-reader announcements write to the
  document alone. \<open>%\<close> on two integers is the truncating remainder \<open>smod\<close>.
\<close>

record study =
  active :: bool
  sm_deckId :: jsv
  currentIndex :: int
  startTime :: nat
  cardsStudied :: "jsv set"

record ui =
  studyMode :: "study option"
  cardFlipState :: "jsv \<Rightarrow> bool option"

datatype js_error =
  TypeError string | SyntaxError string | RangeError string | DOMException string

text \<open>
  \<open>deck.cards[i]\<close> followed by a property access: an index outside the array gives
  \<open>undefined\<close>, and reading a property of \<open>undefined\<close> throws.
\<close>

definition card_at :: "ref list \<Rightarrow> int \<Rightarrow> js_error + ref" where
  "card_at cs i =
     (if 0 \<le> i \<and> i < int (length cs) then Inr (cs ! nat i)
      else Inl (TypeError ''Cannot read properties of undefined''))"

definition deck_cards :: "ref \<Rightarrow> world \<Rightarrow> ref list" where
  "deck_cards deck w = read_array (cards (deck_objs (heap w) ! deck)) w"

text \<open>\<open>renderStudyModeCard\<close>: after drawing the current card it marks it as studied.\<close>

definition renderStudyModeCard :: "world \<Rightarrow> ui \<Rightarrow> js_error + ui" where
  "renderStudyModeCard w u =
     (case studyMode u of
        None \<Rightarrow> Inl (TypeError ''Cannot read properties of undefined'')
      | Some sm \<Rightarrow>
          (case getDeckById (sm_deckId sm) w of
             None \<Rightarrow> Inr u
           | Some deck \<Rightarrow>
               (case card_at (deck_cards deck w) (currentIndex sm) of
                  Inl e \<Rightarrow> Inl e
                | Inr currentCard \<Rightarrow>
                    Inr (u\<lparr>studyMode := Some (sm\<lparr>cardsStudied :=
                           insert (card_id (card_objs (heap w) ! currentCard)) (cardsStudied sm)\<rparr>)\<rparr>))))"

definition studyModePrevious :: "world \<Rightarrow> ui \<Rightarrow> js_error + ui" where
  "studyModePrevious w u =
     (case studyMode u of
        None \<Rightarrow> Inr u
      | Some sm \<Rightarrow>
          if \<not> active sm then Inr u
          else
            (case getDeckById (sm_deckId sm) w of
               None \<Rightarrow> Inr u
             | Some deck \<Rightarrow>
                 let deckLength = int (length (deck_cards deck w)) in
                 if deckLength = 0 then Inr u
                 else
                   let normalized =
                         (if currentIndex sm < 0 \<or> currentIndex sm \<ge> deckLength then 0
                          else currentIndex sm);
                       moved = (normalized - 1 + deckLength) smod deckLength
                   in case card_at (deck_cards deck w) moved of
                        Inl e \<Rightarrow> Inl e
                      | Inr currentCard \<Rightarrow>
                          renderStudyModeCard w
                            (u\<lparr>studyMode := Some (sm\<lparr>currentIndex := moved\<rparr>),
                               cardFlipState := (cardFlipState u)
                                 (card_id (card_objs (heap w) ! currentCard) := None)\<rparr>)))"

definition studyModeNext :: "world \<Rightarrow> ui \<Rightarrow> js_error + ui" where
  "studyModeNext w u =
     (case studyMode u of
        None \<Rightarrow> Inr u
      | Some sm \<Rightarrow>
          if \<not> active sm then Inr u
          else
            (case getDeckById (sm_deckId sm) w of
               None \<Rightarrow> Inr u
             | Some deck \<Rightarrow>
                 let deckLength = int (length (deck_cards deck w)) in
                 if deckLength = 0 then Inr u
                 else
                   let normalized =
                         (if currentIndex sm < 0 \<or> currentIndex sm \<ge> deckLength then 0
                          else currentIndex sm);
                       moved = (normalized + 1) smod deckLength
                   in case card_at (deck_cards deck w) moved of
                        Inl e \<Rightarrow> Inl e
                      | Inr currentCard \<Rightarrow>
                          renderStudyModeCard w
                            (u\<lparr>studyMode := Some (sm\<lparr>currentIndex := moved\<rparr>),
                               cardFlipState := (cardFlipState u)
                                 (card_id (card_objs (heap w) ! currentCard) := None)\<rparr>)))"

text \<open>One call after another; an exception ends the sequence.\<close>

definition and_then :: "js_error + ui \<Rightarrow> (ui \<Rightarrow> js_error + ui) \<Rightarrow> js_error + ui" where
  "and_then r f = (case r of Inl e \<Rightarrow> Inl e | Inr u \<Rightarrow> f u)"

text \<open>The \<open>currentIndex\<close> of the session after a call that returned.\<close>

definition index_after :: "js_error + ui \<Rightarrow> int option" where
  "index_after r =
     (case r of Inl e \<Rightarrow> None | Inr u \<Rightarrow> map_option currentIndex (studyMode u))"

section \<open>SearchManager\<close>

text \<open>
  \<open>search\<close> does no work itself: it cancels the pending timer and sets a new one. The
  timer slot holds the closure that will run, with the \<open>cards\<close> array, the query and the
  callback it captured; a new \<open>search\<close> replaces it. When the timer fires the closure
  calls the callback once with the result array and the match count. The empty-query
  closure passes the \<open>cards\<close> array itself; \<open>filterCards\<close> builds a new array of the
  matching card references.
\<close>

datatype search_task = ReportAll ref cbref | ReportFiltered ref string cbref

record SearchManager =
  debounceDelay :: nat
  debounceTimer :: "search_task option"
  lastQuery :: string
  searchCallback :: "cbref option"

record search_report =
  report_to :: cbref
  filteredCards :: ref
  matchCount :: nat

definition search ::
  "string_methods \<Rightarrow> ref \<Rightarrow> string \<Rightarrow> cbref \<Rightarrow> SearchManager \<Rightarrow> SearchManager" where
  "search str cardsArr query callback sm =
     (if query = [] \<or> trim str query = []
      then sm\<lparr>searchCallback := Some callback,
              debounceTimer := Some (ReportAll cardsArr callback)\<rparr>
      else sm\<lparr>searchCallback := Some callback,
              debounceTimer := Some (ReportFiltered cardsArr query callback)\<rparr>)"

definition card_matches :: "string_methods \<Rightarrow> store \<Rightarrow> string \<Rightarrow> ref \<Rightarrow> bool" where
  "card_matches str \<sigma> normalizedQuery c =
     (let front = toLowerCase str (or_empty (card_front (card_objs \<sigma> ! c)));
          back = toLowerCase str (or_empty (card_back (card_objs \<sigma> ! c)))
      in str_includes str front normalizedQuery \<or> str_includes str back normalizedQuery)"

definition filterCards :: "string_methods \<Rightarrow> ref \<Rightarrow> string \<Rightarrow> store \<Rightarrow> ref \<times> store" where
  "filterCards str cardsArr query \<sigma> =
     (let normalizedQuery = trim str (toLowerCase str query)
      in (length (arrays \<sigma>),
          new_array (filter (card_matches str \<sigma> normalizedQuery) (arrays \<sigma> ! cardsArr)) \<sigma>))"

text \<open>
  The timer fires: what the callback is called with (\<open>None\<close> when no timer is pending),
  and the store afterwards.
\<close>

definition timer_fires ::
  "string_methods \<Rightarrow> SearchManager \<Rightarrow> store \<Rightarrow> search_report option \<times> store" where
  "timer_fires str sm \<sigma> =
     (case debounceTimer sm of
        None \<Rightarrow> (None, \<sigma>)
      | Some (ReportAll cardsArr callback) \<Rightarrow>
          (Some \<lparr>report_to = callback, filteredCards = cardsArr,
                 matchCount = length (arrays \<sigma> ! cardsArr)\<rparr>, \<sigma>)
      | Some (ReportFiltered cardsArr query callback) \<Rightarrow>
          (let filtered = fst (filterCards str cardsArr query \<sigma>);
               \<sigma>' = snd (filterCards str cardsArr query \<sigma>)
           in (Some \<lparr>report_to = callback, filteredCards = filtered,
                      matchCount = length (arrays \<sigma>' ! filtered)\<rparr>, \<sigma>')))"

text \<open>
  C6 as the specification words the match: the case-folded field contains the
  case-folded query, with the query not trimmed.
\<close>

definition stated_match :: "string_methods \<Rightarrow> store \<Rightarrow> string \<Rightarrow> ref \<Rightarrow> bool" where
  "stated_match str \<sigma> query c =
     (str_includes str (toLowerCase str (or_empty (card_front (card_objs \<sigma> ! c))))
        (toLowerCase str query)
      \<or> str_includes str (toLowerCase str (or_empty (card_back (card_objs \<sigma> ! c))))
           (toLowerCase str query))"

section \<open>StorageManager\<close>

text \<open>
  What \<open>JSON.parse\<close> returns is a tree: arrays and objects by value, an object as the list
  of its properties in order. \<open>JUndefined\<close> is the value of a missing property; it also
  appears where \<open>migrateToV1\<close> copies a missing \<open>id\<close>.
\<close>

datatype json =
  JUndefined | JNull | JBool bool | JNum number | JStr string
| JArr "json list" | JObj "(string \<times> json) list"

definition json_truthy :: "json \<Rightarrow> bool" where
  "json_truthy v =
     (case v of JUndefined \<Rightarrow> False | JNull \<Rightarrow> False | JBool b \<Rightarrow> b
      | JNum v \<Rightarrow> v \<noteq> Finite 0 | JStr s \<Rightarrow> s \<noteq> [] | JArr _ \<Rightarrow> True | JObj _ \<Rightarrow> True)"

text \<open>
  \<open>v.k\<close> for one of the property names the storage code reads (\<open>decks\<close>,
  \<open>selectedDeckId\<close>, \<open>version\<close>, \<open>id\<close>, \<open>name\<close>, \<open>cards\<close>, \<open>createdAt\<close>): only an
  object can have it. Reading a property of \<open>null\<close> or \<open>undefined\<close> throws; the one
  place where that can happen, the decks of \<open>migrateToV1\<close>, tests for it before reading.
\<close>

definition get_prop :: "json \<Rightarrow> string \<Rightarrow> json" where
  "get_prop v k =
     (case v of
        JObj kvs \<Rightarrow> (case map_of kvs k of None \<Rightarrow> JUndefined | Some x \<Rightarrow> x)
      | _ \<Rightarrow> JUndefined)"

definition isArray :: "json \<Rightarrow> bool" where
  "isArray v = (case v of JArr _ \<Rightarrow> True | _ \<Rightarrow> False)"

definition typeof_object :: "json \<Rightarrow> bool" where
  "typeof_object v = (case v of JNull \<Rightarrow> True | JArr _ \<Rightarrow> True | JObj _ \<Rightarrow> True | _ \<Rightarrow> False)"

definition typeof_number :: "json \<Rightarrow> bool" where
  "typeof_number v = (case v of JNum _ \<Rightarrow> True | _ \<Rightarrow> False)"

text \<open>The own properties of a value, as the spread \<open>{...data}\<close> copies them.\<close>

definition own_props :: "json \<Rightarrow> (string \<times> json) list" where
  "own_props v = (case v of JObj kvs \<Rightarrow> kvs | _ \<Rightarrow> [])"

text \<open>
  \<open>JSON.parse(JSON.stringify(v))\<close>: a property whose value is \<open>undefined\<close> is left out,
  an \<open>undefined\<close> array element becomes \<open>null\<close>, and so does an infinity wherever it
  stands.
\<close>

primrec json_clone :: "json \<Rightarrow> json" where
  "json_clone JUndefined = JUndefined"
| "json_clone JNull = JNull"
| "json_clone (JBool b) = JBool b"
| "json_clone (JNum v) = (case v of Finite x \<Rightarrow> JNum (Finite x) | _ \<Rightarrow> JNull)"
| "json_clone (JStr s) = JStr s"
| "json_clone (JArr xs) =
     JArr (map (\<lambda>x. if x = JUndefined then JNull else x) (map json_clone xs))"
| "json_clone (JObj kvs) =
     JObj (filter (\<lambda>kv. snd kv \<noteq> JUndefined) (map (map_prod id json_clone) kvs))"

text \<open>
  The parts of the JavaScript runtime the storage code relies on and the model does not
  spell out: \<open>JSON.parse\<close> (\<open>None\<close> when it throws), the conversion of a string to a
  number (\<open>None\<close> for \<open>NaN\<close>), the conversion of an array or object to a string, and
  whether \<open>JSON.stringify\<close> throws on a value (a \<open>RangeError\<close>, when the value is nested
  too deeply for the engine's stack). The two conversions matter only for a stored
  \<open>version\<close> that is not a number. The properties hold for every choice of them.
\<close>

record builtins =
  JSON_parse :: "string \<Rightarrow> json option"
  ToNumber :: "string \<Rightarrow> number option"
  ToString :: "json \<Rightarrow> string"
  stringify_throws :: "json \<Rightarrow> bool"

text \<open>
  \<open>localStorage\<close> as \<open>loadState\<close> meets it: whether the probe of
  \<open>isLocalStorageAvailable\<close> succeeds, and what \<open>getItem(this.storageKey)\<close> does: it
  throws, or gives \<open>null\<close> (\<open>None\<close>) or the stored text.
\<close>

record storage =
  ls_available :: bool
  ls_getItem :: "js_error + string option"

text \<open>\<open>now\<close> is \<open>new Date().toISOString()\<close>.\<close>

definition getDefaultState :: "string \<Rightarrow> json" where
  "getDefaultState now =
     JObj [(''version'', JNum (Finite 1)), (''decks'', JArr []), (''selectedDeckId'', JNull),
           (''searchQuery'', JStr []), (''savedAt'', JStr now)]"

definition isValidStateStructure :: "json \<Rightarrow> bool" where
  "isValidStateStructure data =
     (json_truthy data \<and> typeof_object data \<and> isArray (get_prop data ''decks'')
      \<and> (get_prop data ''selectedDeckId'' = JNull \<or> typeof_number (get_prop data ''selectedDeckId'')))"

text \<open>The arrow function that \<open>migrateToV1\<close> maps over the decks.\<close>

definition migrate_deck :: "string \<Rightarrow> json \<Rightarrow> js_error + json" where
  "migrate_deck now deck =
     (if deck = JNull \<or> deck = JUndefined
      then Inl (TypeError ''Cannot read properties of null'')
      else Inr (JObj
        [(''id'', get_prop deck ''id''),
         (''name'', if json_truthy (get_prop deck ''name'') then get_prop deck ''name''
                    else JStr ''Untitled Deck''),
         (''cards'', if isArray (get_prop deck ''cards'') then get_prop deck ''cards'' else JArr []),
         (''createdAt'', if json_truthy (get_prop deck ''createdAt'') then get_prop deck ''createdAt''
                         else JStr now)]))"

text \<open>\<open>Array.prototype.map\<close> with a function that may throw.\<close>

fun map_throwing :: "('a \<Rightarrow> js_error + 'b) \<Rightarrow> 'a list \<Rightarrow> js_error + 'b list" where
  "map_throwing f [] = Inr []"
| "map_throwing f (x # xs) =
     (case f x of
        Inl e \<Rightarrow> Inl e
      | Inr y \<Rightarrow> (case map_throwing f xs of Inl e \<Rightarrow> Inl e | Inr ys \<Rightarrow> Inr (y # ys)))"

definition migrateToV1 :: "string \<Rightarrow> json \<Rightarrow> js_error + json" where
  "migrateToV1 now data =
     (case (if json_truthy (get_prop data ''decks'') then get_prop data ''decks'' else JArr []) of
        JArr ds \<Rightarrow>
          (case map_throwing (migrate_deck now) ds of
             Inl e \<Rightarrow> Inl e
           | Inr migratedDecks \<Rightarrow>
               Inr (JObj (AList.update ''version'' (JNum (Finite 1))
                          (AList.update ''decks'' (JArr migratedDecks) (own_props data)))))
      | _ \<Rightarrow> Inl (TypeError ''map is not a function''))"

text \<open>\<open>v <= this.version\<close> for a number \<open>v\<close>; \<open>this.version\<close> is 1.\<close>

definition le_version :: "number \<Rightarrow> bool" where
  "le_version v = (case v of Finite x \<Rightarrow> x \<le> 1 | PosInfinity \<Rightarrow> False | NegInfinity \<Rightarrow> True)"

text \<open>
  The loop \<open>for (let v = fromVersion + 1; v <= this.version; v++)\<close> of \<open>migrateState\<close>,
  from a numeric \<open>v\<close> on. The only migration strategy has the key \<open>1\<close>. Nothing bounds
  the number of rounds: where \<open>v++\<close> leaves \<open>v\<close> as it is (\<open>-Infinity\<close>, or a double so
  far below zero that \<open>v + 1\<close> rounds back to \<open>v\<close>) the loop goes on for ever, and the
  result is \<open>None\<close>.
\<close>

partial_function (option) migrate_from :: "string \<Rightarrow> number \<Rightarrow> json \<Rightarrow> (js_error + json) option" where
  "migrate_from now v migratedData =
     (if le_version v
      then (case (if v = Finite 1 then migrateToV1 now migratedData else Inr migratedData) of
              Inl e \<Rightarrow> Some (Inl e)
            | Inr d \<Rightarrow> migrate_from now (increment v) d)
      else Some (Inr migratedData))"

declare migrate_from.simps [code]

text \<open>
  \<open>fromVersion + 1\<close>, where \<open>fromVersion = data.version || 0\<close>: a number is incremented,
  \<open>true\<close> counts as 1, and anything else that is truthy is turned into a string to which
  \<open>"1"\<close> is appended.
\<close>

definition first_version :: "builtins \<Rightarrow> json \<Rightarrow> json" where
  "first_version B version =
     (if \<not> json_truthy version then JNum (Finite 1)
      else case version of
             JNum v \<Rightarrow> JNum (increment v)
           | JBool b \<Rightarrow> JNum (Finite 2)
           | JStr s \<Rightarrow> JStr (s @ ''1'')
           | _ \<Rightarrow> JStr (ToString B version @ ''1''))"

text \<open>
  \<open>migrateState\<close>. When the loop variable starts as a string, the first test
  \<open>v <= this.version\<close> converts it to a number, the strategy is looked up under the string
  itself, and \<open>v++\<close> makes it a number.
\<close>

definition migrateState :: "builtins \<Rightarrow> string \<Rightarrow> json \<Rightarrow> (js_error + json) option" where
  "migrateState B now data =
     (let migratedData = JObj (own_props data);
          looped =
            (case first_version B (get_prop data ''version'') of
               JNum v \<Rightarrow> migrate_from now v migratedData
             | JStr s \<Rightarrow>
                 (case ToNumber B s of
                    None \<Rightarrow> Some (Inr migratedData)
                  | Some v \<Rightarrow>
                      if le_version v
                      then (case (if s = ''1'' then migrateToV1 now migratedData
                                  else Inr migratedData) of
                              Inl e \<Rightarrow> Some (Inl e)
                            | Inr d \<Rightarrow> migrate_from now (increment v) d)
                      else Some (Inr migratedData))
             | _ \<Rightarrow> Some (Inr migratedData))
      in case looped of
           None \<Rightarrow> None
         | Some (Inl e) \<Rightarrow> Some (Inl e)
         | Some (Inr d) \<Rightarrow>
             Some (Inr (JObj (AList.update ''version'' (JNum (Finite 1)) (own_props d)))))"

text \<open>
  The body of the outer \<open>try\<close> of \<open>loadState\<close>, and \<open>loadState\<close> with its \<open>catch\<close>.
  The result is \<open>None\<close> when the call does not return.
\<close>

definition loadState_try :: "builtins \<Rightarrow> storage \<Rightarrow> string \<Rightarrow> (js_error + json) option" where
  "loadState_try B S now =
     (if \<not> ls_available S then Some (Inr (getDefaultState now))
      else
        case ls_getItem S of
          Inl e \<Rightarrow> Some (Inl e)
        | Inr None \<Rightarrow> Some (Inr (getDefaultState now))
        | Inr (Some rawData) \<Rightarrow>
            if rawData = [] then Some (Inr (getDefaultState now))
            else
              (case JSON_parse B rawData of
                 None \<Rightarrow> Some (Inr (getDefaultState now))
               | Some parsedData \<Rightarrow>
                   if \<not> isValidStateStructure parsedData then Some (Inr (getDefaultState now))
                   else
                     (case (if get_prop parsedData ''version'' \<noteq> JNum (Finite 1)
                            then migrateState B now parsedData else Some (Inr parsedData)) of
                        None \<Rightarrow> None
                      | Some (Inl e) \<Rightarrow> Some (Inl e)
                      | Some (Inr d) \<Rightarrow>
                          if stringify_throws B d
                          then Some (Inl (RangeError ''Maximum call stack size exceeded''))
                          else Some (Inr (json_clone d)))))"

definition loadState :: "builtins \<Rightarrow> storage \<Rightarrow> string \<Rightarrow> json option" where
  "loadState B S now =
     (case loadState_try B S now of
        None \<Rightarrow> None
      | Some (Inl e) \<Rightarrow> Some (getDefaultState now)
      | Some (Inr s) \<Rightarrow> Some s)"

text \<open>
  C7 as the specification words a well-formed snapshot: \<open>decks\<close> is a sequence and
  \<open>selectedDeckId\<close> is null or an integer.
\<close>

definition stated_well_formed :: "json \<Rightarrow> bool" where
  "stated_well_formed s =
     (isArray (get_prop s ''decks'')
      \<and> (get_prop s ''selectedDeckId'' = JNull
          \<or> (case get_prop s ''selectedDeckId'' of
                JNum (Finite x) \<Rightarrow> rat_of_int \<lfloor>x\<rfloor> = x | _ \<Rightarrow> False)))"

text \<open>
  The shape a validated snapshot has and keeps through migration: an object whose
  \<open>decks\<close> is an array and whose \<open>selectedDeckId\<close> is \<open>sel\<close>.
\<close>

definition snapshot_like :: "json \<Rightarrow> json \<Rightarrow> bool" where
  "snapshot_like sel d =
     ((case d of JObj _ \<Rightarrow> True | _ \<Rightarrow> False) \<and> isArray (get_prop d ''decks'')
      \<and> get_prop d ''selectedDeckId'' = sel)"

text \<open>
  The number with which the migration loop makes its first test, for a stored \<open>version\<close>
  (\<open>None\<close> when the test is made with \<open>NaN\<close>, which ends the loop at once), and the numbers
  from which the loop counts up to an end: \<open>v++\<close> is sure to advance from \<open>-2^53\<close> on.
\<close>

definition loop_start :: "builtins \<Rightarrow> json \<Rightarrow> number option" where
  "loop_start B version =
     (case first_version B version of JNum v \<Rightarrow> Some v | JStr s \<Rightarrow> ToNumber B s | _ \<Rightarrow> None)"

definition counts_up :: "number \<Rightarrow> bool" where
  "counts_up v =
     (case v of Finite x \<Rightarrow> - (2 ^ 53) \<le> x | PosInfinity \<Rightarrow> True | NegInfinity \<Rightarrow> False)"

text \<open>
  Whatever is stored and parses has a \<open>version\<close> from which the migration loop counts up.
\<close>

definition migration_counts :: "builtins \<Rightarrow> storage \<Rightarrow> bool" where
  "migration_counts B S =
     (case ls_getItem S of
        Inr (Some rawData) \<Rightarrow>
          (case JSON_parse B rawData of
             Some parsedData \<Rightarrow>
               (case loop_start B (get_prop parsedData ''version'') of
                  Some v \<Rightarrow> counts_up v
                | None \<Rightarrow> True)
           | None \<Rightarrow> True)
      | _ \<Rightarrow> True)"

section \<open>AccessibleModal\<close>

text \<open>
  The repository has two \<open>AccessibleModal\<close> classes: the one embedded in \<open>app.js\<close>, which
  the application instantiates, and the standalone module (\<open>export default
  AccessibleModal\<close>). Both are modelled; the names of the standalone one end in
  \<open>_standalone\<close>.

  The page is the part of the document the modal touches together with the modal object's
  own fields. The elements inside the modal are listed in document order with the
  attributes and layout facts that the selectors and the visibility filter read;
  \<open>offsetParent_null\<close> says that the element has no \<open>offsetParent\<close> even while the
  dialog is displayed.
\<close>

record element =
  tagName :: string
  has_href :: bool
  disabled :: bool
  input_type :: "string option"
  tabindex :: "string option"
  offsetParent_null :: bool
  css_visibility :: string
  css_display :: string

record page =
  modal_el :: ref
  modal_tabindex :: "string option"
  modal_content :: "(ref \<times> element) list"
  activeElement :: ref
  keydown_attached :: bool
  modal_display :: string
  aria_hidden :: string
  body_overflow :: string
  announcer :: string
  deferred_focus :: "ref list"
  focusTrapActive :: bool
  previouslyFocusedElement :: "ref option"
  focusableElements :: "ref list"

record key_event =
  key :: string
  shiftKey :: bool

text \<open>
  The selector list of \<open>getFocusableElements\<close> in \<open>app.js\<close>, and its visibility filter.
  While the dialog element has the inline style \<open>display: none\<close> that \<open>close\<close> gives
  it, no element inside it has an \<open>offsetParent\<close>.
\<close>

definition not_minus_one :: "element \<Rightarrow> bool" where
  "not_minus_one el = (tabindex el \<noteq> Some ''-1'')"

definition matches_selectors :: "element \<Rightarrow> bool" where
  "matches_selectors el =
     ((tagName el = ''A'' \<and> has_href el \<and> not_minus_one el)
      \<or> (tagName el = ''BUTTON'' \<and> \<not> disabled el \<and> not_minus_one el)
      \<or> (tagName el = ''TEXTAREA'' \<and> \<not> disabled el \<and> not_minus_one el)
      \<or> (tagName el = ''INPUT'' \<and> input_type el = Some ''text'' \<and> \<not> disabled el \<and> not_minus_one el)
      \<or> (tagName el = ''INPUT'' \<and> input_type el = Some ''radio'' \<and> \<not> disabled el \<and> not_minus_one el)
      \<or> (tagName el = ''INPUT'' \<and> input_type el = Some ''checkbox'' \<and> \<not> disabled el \<and> not_minus_one el)
      \<or> (tagName el = ''SELECT'' \<and> \<not> disabled el \<and> not_minus_one el)
      \<or> (tabindex el \<noteq> None \<and> not_minus_one el))"

definition is_visible :: "page \<Rightarrow> element \<Rightarrow> bool" where
  "is_visible p el =
     (\<not> (offsetParent_null el \<or> modal_display p = ''none'')
      \<and> css_visibility el \<noteq> ''hidden'' \<and> css_display el \<noteq> ''none'')"

definition getFocusableElements :: "page \<Rightarrow> ref list" where
  "getFocusableElements p =
     map fst (filter (\<lambda>(r, el). matches_selectors el \<and> is_visible p el) (modal_content p))"

text \<open>The selector list of the standalone module; it has no visibility filter.\<close>

definition matches_selectors_standalone :: "element \<Rightarrow> bool" where
  "matches_selectors_standalone el =
     ((tagName el = ''A'' \<and> has_href el)
      \<or> (tagName el = ''BUTTON'' \<and> \<not> disabled el)
      \<or> (tagName el = ''TEXTAREA'' \<and> \<not> disabled el)
      \<or> (tagName el = ''INPUT'' \<and> input_type el = Some ''text'' \<and> \<not> disabled el)
      \<or> (tagName el = ''INPUT'' \<and> input_type el = Some ''radio'' \<and> \<not> disabled el)
      \<or> (tagName el = ''INPUT'' \<and> input_type el = Some ''checkbox'' \<and> \<not> disabled el)
      \<or> (tagName el = ''SELECT'' \<and> \<not> disabled el)
      \<or> (tabindex el \<noteq> None \<and> not_minus_one el))"

definition getFocusableElements_standalone :: "page \<Rightarrow> ref list" where
  "getFocusableElements_standalone p =
     map fst (filter (\<lambda>(r, el). matches_selectors_standalone el) (modal_content p))"

text \<open>
  \<open>el.focus()\<close>. On the dialog element itself it moves focus only if the element has a
  \<open>tabindex\<close>; the elements of the focusable list and the element that had focus before
  the dialog opened are taken to accept focus.
\<close>

definition focus :: "ref \<Rightarrow> page \<Rightarrow> page" where
  "focus r p =
     (if r = modal_el p \<and> modal_tabindex p = None then p else p\<lparr>activeElement := r\<rparr>)"

definition tag_of :: "page \<Rightarrow> ref \<Rightarrow> string" where
  "tag_of p r = (case map_of (modal_content p) r of None \<Rightarrow> [] | Some el \<Rightarrow> tagName el)"

subsection \<open>Opening, statement by statement\<close>

text \<open>
  \<open>open\<close> is a straight line of statements. To speak about their order, each statement
  is a state transformer with a name, the method body is the list of its statements in
  source order, and running a body yields, for every statement, the state in which it
  starts.
\<close>

datatype stmt =
  RememberTrigger "ref option"
| QueryFocusable
| QueryFocusable_standalone
| ShowModal
| ActivateTrap
| AttachKeydown
| LockScroll
| FocusInputOrFirst
| FocusFirst
| Announce string

fun exec :: "stmt \<Rightarrow> page \<Rightarrow> page" where
  "exec (RememberTrigger triggerElement) p =
     p\<lparr>previouslyFocusedElement :=
          Some (case triggerElement of Some t \<Rightarrow> t | None \<Rightarrow> activeElement p)\<rparr>"
| "exec QueryFocusable p = p\<lparr>focusableElements := getFocusableElements p\<rparr>"
| "exec QueryFocusable_standalone p =
     p\<lparr>focusableElements := getFocusableElements_standalone p\<rparr>"
| "exec ShowModal p = p\<lparr>modal_display := ''block'', aria_hidden := ''false''\<rparr>"
| "exec ActivateTrap p = p\<lparr>focusTrapActive := True\<rparr>"
| "exec AttachKeydown p = p\<lparr>keydown_attached := True\<rparr>"
| "exec LockScroll p = p\<lparr>body_overflow := ''hidden''\<rparr>"
| "exec FocusInputOrFirst p =
     (case focusableElements p of
        [] \<Rightarrow> focus (modal_el p) p
      | first # rest \<Rightarrow>
          (case find (\<lambda>el. tag_of p el = ''INPUT'' \<or> tag_of p el = ''TEXTAREA'')
                  (focusableElements p) of
             Some inputElement \<Rightarrow> focus inputElement p
           | None \<Rightarrow> focus first p))"
| "exec FocusFirst p =
     (case focusableElements p of
        [] \<Rightarrow> focus (modal_el p) p
      | first # rest \<Rightarrow> focus first p)"
| "exec (Announce message) p = p\<lparr>announcer := message\<rparr>"

fun starts :: "stmt list \<Rightarrow> page \<Rightarrow> (stmt \<times> page) list" where
  "starts [] p = []"
| "starts (s # ss) p = (s, p) # starts ss (exec s p)"

definition run_body :: "stmt list \<Rightarrow> page \<Rightarrow> page" where
  "run_body ss p = fold exec ss p"

text \<open>\<open>open\<close> in \<open>app.js\<close>.\<close>

definition open_body :: "ref option \<Rightarrow> stmt list" where
  "open_body triggerElement =
     [RememberTrigger triggerElement, QueryFocusable, ShowModal, ActivateTrap, AttachKeydown,
      LockScroll, FocusInputOrFirst, Announce ''Dialog opened'']"

definition modal_open :: "ref option \<Rightarrow> page \<Rightarrow> page" where
  "modal_open triggerElement p = run_body (open_body triggerElement) p"

text \<open>\<open>open\<close> in the standalone module.\<close>

definition open_body_standalone :: "ref option \<Rightarrow> stmt list" where
  "open_body_standalone triggerElement =
     [RememberTrigger triggerElement, QueryFocusable_standalone, ShowModal, FocusFirst,
      AttachKeydown, ActivateTrap, LockScroll, Announce ''Dialog opened'']"

definition modal_open_standalone :: "ref option \<Rightarrow> page \<Rightarrow> page" where
  "modal_open_standalone triggerElement p = run_body (open_body_standalone triggerElement) p"

subsection \<open>Closing and key handling\<close>

text \<open>
  \<open>close\<close> in \<open>app.js\<close> defers the return of focus with \<open>setTimeout(..., 0)\<close>; the
  standalone one returns focus at once.
\<close>

definition modal_close :: "page \<Rightarrow> page" where
  "modal_close p =
     (let p1 = p\<lparr>focusTrapActive := False, keydown_attached := False,
                  modal_display := ''none'', aria_hidden := ''true'', body_overflow := []\<rparr>;
          p2 = (case previouslyFocusedElement p1 of
                  None \<Rightarrow> p1
                | Some t \<Rightarrow> p1\<lparr>deferred_focus := deferred_focus p1 @ [t]\<rparr>)
      in p2\<lparr>announcer := ''Dialog closed''\<rparr>)"

definition modal_close_standalone :: "page \<Rightarrow> page" where
  "modal_close_standalone p =
     (let p1 = p\<lparr>modal_display := ''none'', aria_hidden := ''true'',
                  keydown_attached := False, focusTrapActive := False, body_overflow := []\<rparr>;
          p2 = (case previouslyFocusedElement p1 of
                  None \<Rightarrow> p1
                | Some t \<Rightarrow> focus t p1)
      in p2\<lparr>announcer := ''Dialog closed''\<rparr>)"

text \<open>
  A key handler returns the page and whether it called \<open>e.preventDefault()\<close>. When it
  did not, the browser goes on to its default action for the key.
\<close>

definition trapFocus :: "key_event \<Rightarrow> page \<Rightarrow> page \<times> bool" where
  "trapFocus e p =
     (if key e = ''Tab''
      then
        let p1 = p\<lparr>focusableElements := getFocusableElements p\<rparr> in
        (case focusableElements p1 of
           [] \<Rightarrow> (p1, True)
         | firstElement # rest \<Rightarrow>
             let lastElement = last (focusableElements p1) in
             if shiftKey e
             then (if activeElement p1 = firstElement then (focus lastElement p1, True)
                   else (p1, False))
             else (if activeElement p1 = lastElement then (focus firstElement p1, True)
                   else (p1, False)))
      else (p, False))"

definition handleKeyDown :: "key_event \<Rightarrow> page \<Rightarrow> page \<times> bool" where
  "handleKeyDown e p =
     (if \<not> focusTrapActive p then (p, False)
      else if key e = ''Escape'' then (modal_close p, True)
      else if key e = ''Tab'' then trapFocus e p
      else (p, False))"

text \<open>
  In the standalone \<open>trapFocus\<close> the first and last element are read from the list that
  \<open>open\<close> stored; for an empty list both are \<open>undefined\<close> and equal no element.
\<close>

definition trapFocus_standalone :: "key_event \<Rightarrow> page \<Rightarrow> page \<times> bool" where
  "trapFocus_standalone e p =
     (case focusableElements p of
        [] \<Rightarrow> (p, False)
      | firstElement # rest \<Rightarrow>
          let lastElement = last (focusableElements p) in
          if key e = ''Tab''
          then (if shiftKey e
                then (if activeElement p = firstElement then (focus lastElement p, True)
                      else (p, False))
                else (if activeElement p = lastElement then (focus firstElement p, True)
                      else (p, False)))
          else (p, False))"

definition handleKeyDown_standalone :: "key_event \<Rightarrow> page \<Rightarrow> page \<times> bool" where
  "handleKeyDown_standalone e p =
     (if key e = ''Escape'' then (modal_close_standalone p, True)
      else if focusableElements p \<noteq> [] then trapFocus_standalone e p
      else (p, False))"

text \<open>A \<open>keydown\<close> event on the document reaches the handler only while it is attached.\<close>

definition keydown :: "key_event \<Rightarrow> page \<Rightarrow> page \<times> bool" where
  "keydown e p = (if keydown_attached p then handleKeyDown e p else (p, False))"

definition keydown_standalone :: "key_event \<Rightarrow> page \<Rightarrow> page \<times> bool" where
  "keydown_standalone e p =
     (if keydown_attached p then handleKeyDown_standalone e p else (p, False))"

section \<open>Example inputs\<close>

definition quiet_env :: observer_env where
  "quiet_env c ev data w = None"

definition first_throws_env :: observer_env where
  "first_throws_env c ev data w = (if c = 0 then Some (Thrown ''observer failed'') else None)"

definition two_observers :: world where
  "two_observers = subscribe 1 (subscribe 0 (DeckManager_new 0))"


text \<open>
  \<open>const all = getAllDecks(); all[0].name = "renamed";\<close> on a new registry.
\<close>

definition renamed_through_getAll :: world where
  "renamed_through_getAll =
     (let a = fst (getAllDecks (DeckManager_new 0));
          w = snd (getAllDecks (DeckManager_new 0));
          deck = read_array a w ! 0
      in write_deck deck ((deck_objs (heap w) ! deck)\<lparr>name := ''renamed''\<rparr>) w)"



definition saved_with_null :: snapshot where
  "saved_with_null =
     \<lparr>snap_decks = Some
        [Some \<lparr>dv_id = Num 7, dv_name = ''A'', dv_cards = [], dv_createdAt = 0\<rparr>, None],
      snap_selectedDeckId = Null\<rparr>"


text \<open>
  The first sample deck with three cards added, and a study session on it at index \<open>i\<close>.
\<close>

definition three_cards :: world where
  "three_cards =
     run ascii_strings quiet_env
       [AddCard (Num 1) \<lparr>cd_front = Some ''hola'', cd_back = Some ''hello''\<rparr> 0 ''0'' ''a'',
        AddCard (Num 1) \<lparr>cd_front = Some ''gato'', cd_back = Some ''cat''\<rparr> 0 ''0'' ''b'',
        AddCard (Num 1) \<lparr>cd_front = Some ''perro'', cd_back = Some ''dog''\<rparr> 0 ''0'' ''c'']
       (DeckManager_new 0)"

definition session_at :: "int \<Rightarrow> study" where
  "session_at i =
     \<lparr>active = True, sm_deckId = Num 1, currentIndex = i, startTime = 0, cardsStudied = {}\<rparr>"

definition studying_at :: "int \<Rightarrow> ui" where
  "studying_at i = \<lparr>studyMode = Some (session_at i), cardFlipState = (\<lambda>c. None)\<rparr>"

definition SearchManager_new :: SearchManager where
  "SearchManager_new = \<lparr>debounceDelay = 300, debounceTimer = None, lastQuery = [], searchCallback = None\<rparr>"

text \<open>
  Three stored texts with what \<open>JSON.parse\<close> makes of them: a current snapshot whose
  \<open>selectedDeckId\<close> is 1.5, a snapshot from before versioning whose only deck lacks
  \<open>cards\<close> and \<open>createdAt\<close>, and a snapshot whose version is \<open>-1e16\<close>, a double that
  adding 1 leaves as it is. Every other text counts as unparseable here.
\<close>

definition stored_fractional :: string where
  \<open>stored_fractional = ''{"version":1,"decks":[],"selectedDeckId":1.5}''\<close>

definition stored_old :: string where
  \<open>stored_old = ''{"decks":[{"id":4,"name":"Old"}],"selectedDeckId":4}''\<close>

definition stored_stalling :: string where
  \<open>stored_stalling = ''{"version":-1e16,"decks":[],"selectedDeckId":null}''\<close>

definition parse_example :: "string \<Rightarrow> json option" where
  "parse_example txt =
     (if txt = stored_fractional
      then Some (JObj [(''version'', JNum (Finite 1)), (''decks'', JArr []),
                       (''selectedDeckId'', JNum (Finite (3 / 2)))])
      else if txt = stored_old
      then Some (JObj [(''decks'', JArr [JObj [(''id'', JNum (Finite 4)), (''name'', JStr ''Old'')]]),
                       (''selectedDeckId'', JNum (Finite 4))])
      else if txt = stored_stalling
      then Some (JObj [(''version'', JNum (Finite (- 10000000000000000))), (''decks'', JArr []),
                       (''selectedDeckId'', JNull)])
      else None)"

definition no_conversion :: "string \<Rightarrow> number option" where
  "no_conversion s = None"

definition no_text :: "json \<Rightarrow> string" where
  "no_text v = []"

definition example_builtins :: builtins where
  "example_builtins =
     \<lparr>JSON_parse = parse_example, ToNumber = no_conversion, ToString = no_text,
      stringify_throws = (\<lambda>v. False)\<rparr>"

definition holding :: "string \<Rightarrow> storage" where
  "holding txt = \<lparr>ls_available = True, ls_getItem = Inr (Some txt)\<rparr>"

definition unavailable :: storage where
  "unavailable = \<lparr>ls_available = False, ls_getItem = Inl (DOMException ''SecurityError'')\<rparr>"

text \<open>
  The "Create New Deck" dialog, closed by \<open>close\<close>: a close button, a text input, a
  cancel and a confirm button, none hidden by a style of its own; the dialog element has no
  \<open>tabindex\<close>; focus is on the button that opens it. Then a dialog that
  gains a second button after the standalone \<open>open\<close> ran, with focus on the new button,
  and a dialog with nothing focusable in it.
\<close>

definition a_button :: element where
  "a_button = \<lparr>tagName = ''BUTTON'', has_href = False, disabled = False, input_type = None,
                tabindex = None, offsetParent_null = False, css_visibility = ''visible'',
                css_display = ''inline-block''\<rparr>"

definition a_text_input :: element where
  "a_text_input = \<lparr>tagName = ''INPUT'', has_href = False, disabled = False,
                    input_type = Some ''text'', tabindex = None, offsetParent_null = False,
                    css_visibility = ''visible'', css_display = ''inline-block''\<rparr>"

definition closed_modal :: "(ref \<times> element) list \<Rightarrow> page" where
  "closed_modal content =
     \<lparr>modal_el = 9, modal_tabindex = None, modal_content = content, activeElement = 1,
      keydown_attached = False,
      modal_display = ''none'', aria_hidden = ''true'', body_overflow = [], announcer = [],
      deferred_focus = [], focusTrapActive = False, previouslyFocusedElement = None,
      focusableElements = []\<rparr>"

definition deck_modal :: page where
  "deck_modal =
     closed_modal [(10, a_button), (11, a_text_input), (12, a_button), (13, a_button)]"

definition tab_key :: key_event where
  "tab_key = \<lparr>key = ''Tab'', shiftKey = False\<rparr>"

definition grown_after_open :: page where
  "grown_after_open =
     (modal_open_standalone (Some 1) (closed_modal [(10, a_button)]))
       \<lparr>modal_content := [(10, a_button), (13, a_button)], activeElement := 13\<rparr>"

definition opened_empty :: page where
  "opened_empty = modal_open_standalone (Some 1) (closed_modal [])"

section \<open>Properties of the rounding\<close>

lemma spacing_pos: "0 < spacing y"
  by (simp add: spacing_def)


lemma nearest_even_nonneg: "0 \<le> q \<Longrightarrow> 0 \<le> nearest_even q"
  by (auto simp add: nearest_even_def Let_def)

lemma nearest_even_near: "\<bar>of_int (nearest_even q) - q\<bar> \<le> 1 / 2"
proof -
  have "of_int \<lfloor>q\<rfloor> \<le> q" "q < of_int \<lfloor>q\<rfloor> + 1"
    by linarith+
  then show ?thesis
    by (auto simp add: nearest_even_def Let_def)
qed

lemma exponent_le:
  assumes "\<bar>y\<bar> < 2 ^ 53"
  shows "exponent y \<le> 52"
proof (cases "1 \<le> \<bar>y\<bar>")
  case True
  let ?m = "\<lfloor>\<bar>y\<bar>\<rfloor>"
  have m: "0 < ?m" using True by linarith
  have "(2 :: int) ^ nat (bitlen ?m - 1) \<le> ?m"
    using bitlen_bounds [OF m] by simp
  also have "?m < 2 ^ 53"
  proof -
    have "rat_of_int ?m \<le> \<bar>y\<bar>" by linarith
    then have "rat_of_int ?m < rat_of_int (2 ^ 53)" using assms by simp
    then show ?thesis by (simp only: of_int_less_iff)
  qed
  finally have "nat (bitlen ?m - 1) < 53"
    by (simp only: power_strict_increasing_iff [of 2] one_less_numeral_iff semiring_norm)
  then show ?thesis using True by (simp add: exponent_def)
next
  case False
  then show ?thesis using bitlen_nonneg [of "\<lceil>1 / \<bar>y\<bar>\<rceil> - 1"] by (simp add: exponent_def)
qed

text \<open>Below \<open>2^53\<close> in size, neighbouring doubles are at most 1 apart.\<close>

lemma spacing_le_1:
  assumes "\<bar>y\<bar> < 2 ^ 53"
  shows "spacing y \<le> 1"
proof -
  have "max (exponent y) (- 1022) - 52 \<le> 0"
    using exponent_le [OF assms] by simp
  then have "(2 :: rat) powi (max (exponent y) (- 1022) - 52) \<le> 2 powi 0"
    by (intro power_int_increasing) simp_all
  then show ?thesis by (simp add: spacing_def)
qed

lemma round_double_sign:
  "0 \<le> y \<Longrightarrow> 0 \<le> round_double y"
  using spacing_pos [of y] nearest_even_nonneg [of "\<bar>y\<bar> / spacing y"]
  by (simp add: round_double_def sgn_if)

text \<open>Rounding moves a number by at most half the spacing.\<close>

lemma round_double_near:
  "\<bar>round_double y - y\<bar> \<le> spacing y / 2"
proof (cases "y = 0")
  case True
  then show ?thesis using spacing_pos [of 0] by (simp add: round_double_def)
next
  case False
  let ?u = "spacing y"
  let ?n = "rat_of_int (nearest_even (\<bar>y\<bar> / ?u))"
  have u: "0 < ?u" by (rule spacing_pos)
  have "\<bar>?n - \<bar>y\<bar> / ?u\<bar> \<le> 1 / 2" by (rule nearest_even_near)
  then have "\<bar>?n - \<bar>y\<bar> / ?u\<bar> * ?u \<le> 1 / 2 * ?u"
    using u by (intro mult_right_mono) simp_all
  moreover have "\<bar>?n - \<bar>y\<bar> / ?u\<bar> * ?u = \<bar>?n * ?u - \<bar>y\<bar>\<bar>"
  proof -
    have "\<bar>?n - \<bar>y\<bar> / ?u\<bar> * ?u = \<bar>(?n - \<bar>y\<bar> / ?u) * ?u\<bar>"
      using u by (simp add: abs_mult)
    also have "(?n - \<bar>y\<bar> / ?u) * ?u = ?n * ?u - \<bar>y\<bar>"
      using u by (simp add: field_simps)
    finally show ?thesis .
  qed
  ultimately have *: "\<bar>?n * ?u - \<bar>y\<bar>\<bar> \<le> ?u / 2" by simp
  have "round_double y - y = sgn y * (?n * ?u - \<bar>y\<bar>)"
    using False by (simp add: round_double_def algebra_simps sgn_if)
  then have "\<bar>round_double y - y\<bar> = \<bar>?n * ?u - \<bar>y\<bar>\<bar>"
    using False by (simp add: abs_mult sgn_if)
  then show ?thesis using * by simp
qed

lemma round_double_near_small:
  assumes "\<bar>y\<bar> < 2 ^ 53"
  shows "\<bar>round_double y - y\<bar> \<le> 1 / 2"
  using round_double_near [of y] spacing_le_1 [OF assms] by linarith


text \<open>Some sums as JavaScript computes them.\<close>

lemma double_succ_examples:
  "double_succ 4 = 5"
  "double_succ (3 / 2) = 5 / 2"
  "double_succ (2 ^ 53 - 1) = 2 ^ 53"
  "double_succ (2 ^ 53) = 2 ^ 53"
  "double_succ (2 ^ 53 + 2) = 2 ^ 53 + 4"
  "double_succ (- (2 ^ 53) - 2) = - (2 ^ 53)"
  "double_succ (- (2 ^ 53) - 4) = - (2 ^ 53) - 4"
  "double_succ (- (10 ^ 16)) = - (10 ^ 16)"
  "double_succ (1 / 2 ^ 53) = 1"
  "double_succ (3 / 2 ^ 53) = 1 + 1 / 2 ^ 51"
  by code_simp+


lemma double_succ_advances:
  assumes "- (2 ^ 53) \<le> x" "x \<le> 1"
  shows "x + 1 / 2 \<le> double_succ x"
proof -
  have "\<bar>x + 1\<bar> < 2 ^ 53" using assms by (simp add: abs_if)
  then have "\<bar>round_double (x + 1) - (x + 1)\<bar> \<le> 1 / 2" by (rule round_double_near_small)
  then show ?thesis by (simp add: double_succ_def abs_if split: if_splits)
qed

lemma double_succ_lower:
  assumes "- (2 ^ 53) \<le> x"
  shows "- (2 ^ 53) \<le> double_succ x"
proof (cases "x \<le> 1")
  case True
  then show ?thesis using double_succ_advances [OF assms True] assms by linarith
next
  case False
  then have "0 \<le> round_double (x + 1)" by (intro round_double_sign) simp
  then show ?thesis by (simp add: double_succ_def)
qed

section \<open>Properties of the notification channel\<close>

lemma forEach_cbs:
  "map inv_cb (fst (forEach_observers \<beta> ev data w cs)) =
     takeWhile (\<lambda>c. \<beta> c ev data w = None) cs @
     take 1 (dropWhile (\<lambda>c. \<beta> c ev data w = None) cs)"
  by (induction cs) (auto simp: Let_def split: option.splits)

lemma forEach_result:
  "snd (forEach_observers \<beta> ev data w cs) =
     (case dropWhile (\<lambda>c. \<beta> c ev data w = None) cs of [] \<Rightarrow> None | c # _ \<Rightarrow> \<beta> c ev data w)"
  by (induction cs) (auto simp: Let_def split: option.splits)


lemma forEach_cbs_subset:
  "set (map inv_cb (fst (forEach_observers \<beta> ev data w cs))) \<subseteq> set cs"
  unfolding forEach_cbs by (auto dest: set_takeWhileD in_set_takeD set_dropWhileD)

lemma forEach_cbs_all:
  "\<forall>c\<in>set cs. \<beta> c ev data w = None \<Longrightarrow>
     map inv_cb (fst (forEach_observers \<beta> ev data w cs)) = cs"
  by (induction cs) (auto simp: Let_def)

text \<open>
  C3 (as the code has it). \<open>notifyObservers\<close> calls the callbacks in subscription order, up
  to and including the first one that throws: the callbacks subscribed after a throwing
  one are not called, and its exception is the outcome of the publishing operation.
\<close>

theorem notifyObservers_stops_at_first_throw:
  "map inv_cb (fst (notifyObservers \<beta> ev data w)) =
     takeWhile (\<lambda>c. \<beta> c ev data w = None) (observers (manager w)) @
     take 1 (dropWhile (\<lambda>c. \<beta> c ev data w = None) (observers (manager w)))
   \<and> snd (notifyObservers \<beta> ev data w) =
     (case dropWhile (\<lambda>c. \<beta> c ev data w = None) (observers (manager w)) of
        [] \<Rightarrow> None | c # _ \<Rightarrow> \<beta> c ev data w)
   \<and> fst (notify_then_return \<beta> ev data res w) =
     (case snd (notifyObservers \<beta> ev data w) of None \<Rightarrow> Inr res | Some e \<Rightarrow> Inl e)"
  by (simp add: notifyObservers_def forEach_cbs forEach_result notify_then_return_def
      split: option.splits)

text \<open>
  C3 (as the specification states it) fails: with observers 0 and 1 subscribed in this
  order and observer 0 throwing, \<open>createDeck\<close> never calls observer 1 and ends with the
  exception of observer 0.
\<close>

theorem notifyObservers_isolation_counterexample:
  "observers (manager two_observers) = [0, 1]
   \<and> first_throws_env 1 deckCreated (PDeck 3) two_observers = None
   \<and> map inv_cb (snd (snd (createDeck ascii_strings first_throws_env ''Spanish'' 0 two_observers)))
       = [0]
   \<and> fst (createDeck ascii_strings first_throws_env ''Spanish'' 0 two_observers)
       = Inl (Thrown ''observer failed'')"
  by (simp add: two_observers_def first_throws_env_def createDeck_def subscribe_def
      DeckManager_new_def ascii_strings_def ascii_trim_def is_space_def notify_then_return_def
      notifyObservers_def new_deck_def new_array_def set_array_def Let_def)

text \<open>
  C10 (as the code has it). \<open>subscribe\<close> appends without looking for duplicates, so
  after subscribing a callback twice the observer list holds it twice more, and it is
  called twice more per event when no subscribed callback throws during the dispatch; one
  \<open>unsubscribe\<close> removes every occurrence, and the callback is then called zero times,
  whether or not another callback throws.
\<close>

theorem subscribe_twice_unsubscribe_once:
  "observers (manager (subscribe cb (subscribe cb w))) = observers (manager w) @ [cb, cb]
   \<and> ((\<forall>c \<in> set (observers (manager w)) \<union> {cb}.
          \<beta> c ev data (subscribe cb (subscribe cb w)) = None) \<longrightarrow>
        count_list (map inv_cb (fst (notifyObservers \<beta> ev data (subscribe cb (subscribe cb w))))) cb
          = count_list (observers (manager w)) cb + 2)
   \<and> observers (manager (unsubscribe cb w)) = filter (\<lambda>obs. obs \<noteq> cb) (observers (manager w))
   \<and> count_list (observers (manager (unsubscribe cb w))) cb = 0
   \<and> count_list (map inv_cb (fst (notifyObservers \<beta> ev' data' (unsubscribe cb w)))) cb = 0"
proof (intro conjI impI)
  show "observers (manager (subscribe cb (subscribe cb w))) = observers (manager w) @ [cb, cb]"
    by (simp add: subscribe_def)
next
  assume "\<forall>c \<in> set (observers (manager w)) \<union> {cb}.
            \<beta> c ev data (subscribe cb (subscribe cb w)) = None"
  then have "map inv_cb (fst (notifyObservers \<beta> ev data (subscribe cb (subscribe cb w))))
               = observers (manager w) @ [cb, cb]"
    unfolding notifyObservers_def by (subst forEach_cbs_all) (auto simp: subscribe_def)
  then show "count_list (map inv_cb (fst (notifyObservers \<beta> ev data (subscribe cb (subscribe cb w))))) cb
          = count_list (observers (manager w)) cb + 2"
    by simp
next
  show "observers (manager (unsubscribe cb w)) = filter (\<lambda>obs. obs \<noteq> cb) (observers (manager w))"
    by (simp add: unsubscribe_def)
next
  show "count_list (observers (manager (unsubscribe cb w))) cb = 0"
    by (simp add: unsubscribe_def count_list_0_iff)
next
  have "set (map inv_cb (fst (notifyObservers \<beta> ev' data' (unsubscribe cb w))))
          \<subseteq> set (filter (\<lambda>obs. obs \<noteq> cb) (observers (manager w)))"
    unfolding notifyObservers_def
    using forEach_cbs_subset[of \<beta> ev' data' "unsubscribe cb w"
        "observers (manager (unsubscribe cb w))"]
    by (simp add: unsubscribe_def)
  then have "cb \<notin> set (map inv_cb (fst (notifyObservers \<beta> ev' data' (unsubscribe cb w))))"
    by auto
  then show "count_list (map inv_cb (fst (notifyObservers \<beta> ev' data' (unsubscribe cb w)))) cb = 0"
    by (simp only: count_list_0_iff not_False_eq_True)
qed

theorem subscribe_twice_unsubscribe_once_witness:
  "observers (manager (DeckManager_new 0)) = []
   \<and> quiet_env 7 deckCreated (PDeck 0) (subscribe 7 (subscribe 7 (DeckManager_new 0))) = None
   \<and> count_list (map inv_cb (fst (notifyObservers quiet_env deckCreated (PDeck 0)
        (subscribe 7 (subscribe 7 (DeckManager_new 0)))))) 7 = 2
   \<and> count_list (map inv_cb (fst (notifyObservers quiet_env deckCreated (PDeck 0)
        (unsubscribe 7 (subscribe 7 (subscribe 7 (DeckManager_new 0))))))) 7 = 0"
  using subscribe_twice_unsubscribe_once [of 7 "DeckManager_new 0" quiet_env deckCreated "PDeck 0"]
    subscribe_twice_unsubscribe_once [of 7 "subscribe 7 (subscribe 7 (DeckManager_new 0))"
      quiet_env deckCreated "PDeck 0" deckCreated "PDeck 0"]
  by (simp add: quiet_env_def DeckManager_new_def)

text \<open>
  C10 (as the specification states it) fails for a callback that throws: subscribed twice
  to a registry without other observers, it is called once per event, because
  \<open>notifyObservers\<close> stops at the first throw.
\<close>

theorem subscribe_twice_throwing_counterexample:
  "observers (manager (subscribe 0 (subscribe 0 (DeckManager_new 0)))) = [0, 0]
   \<and> first_throws_env 0 deckCreated (PDeck 0) (subscribe 0 (subscribe 0 (DeckManager_new 0)))
       = Some (Thrown ''observer failed'')
   \<and> count_list (map inv_cb (fst (notifyObservers first_throws_env deckCreated (PDeck 0)
        (subscribe 0 (subscribe 0 (DeckManager_new 0)))))) 0 = 1"
  by (simp add: subscribe_def DeckManager_new_def first_throws_env_def notifyObservers_def)

section \<open>Properties of the registry\<close>

lemma findIndex_Some:
  "findIndex P xs = Some i \<Longrightarrow> i < length xs \<and> P (xs ! i) \<and> find P xs = Some (xs ! i)"
  by (induction xs arbitrary: i) (auto split: if_splits)


lemma notify_then_return_state [simp]:
  "fst (snd (notify_then_return \<beta> ev data res w)) = w"
  by (simp add: notify_then_return_def split: option.splits)

lemma notify_then_return_trace [simp]:
  "snd (snd (notify_then_return \<beta> ev data res w)) = fst (notifyObservers \<beta> ev data w)"
  by (simp add: notify_then_return_def split: option.splits)







text \<open>
  C2 (as the code has it). \<open>getAllDecks\<close> returns a new array with the registry's own deck
  references in the registry's order. Whatever is written to the returned array leaves every
  array the registry had, every deck and card object, \<open>getDeckById\<close> and the result of a
  later \<open>getAllDecks\<close> as they were. The deck objects are shared, not copied.
\<close>

theorem getAllDecks_copies_the_array_only:
  assumes "decks (manager w) < length (arrays (heap w))"
  shows "read_array (fst (getAllDecks w)) (snd (getAllDecks w)) = read_array (decks (manager w)) w
   \<and> fst (getAllDecks w) \<noteq> decks (manager w)
   \<and> (\<forall>xs i b.
        deck_objs (heap (write_array (fst (getAllDecks w)) xs (snd (getAllDecks w)))) = deck_objs (heap w)
      \<and> card_objs (heap (write_array (fst (getAllDecks w)) xs (snd (getAllDecks w)))) = card_objs (heap w)
      \<and> manager (write_array (fst (getAllDecks w)) xs (snd (getAllDecks w))) = manager w
      \<and> (b < length (arrays (heap w)) \<longrightarrow>
           read_array b (write_array (fst (getAllDecks w)) xs (snd (getAllDecks w))) = read_array b w)
      \<and> getDeckById i (write_array (fst (getAllDecks w)) xs (snd (getAllDecks w))) = getDeckById i w
      \<and> read_array (fst (getAllDecks (write_array (fst (getAllDecks w)) xs (snd (getAllDecks w)))))
           (snd (getAllDecks (write_array (fst (getAllDecks w)) xs (snd (getAllDecks w)))))
          = read_array (decks (manager w)) w)"
  using assms
  by (auto simp: getAllDecks_def new_array_def set_array_def getDeckById_def nth_append
      write_array_def read_array_def)

theorem getAllDecks_witness:
  "decks (manager (DeckManager_new 0)) < length (arrays (heap (DeckManager_new 0)))
   \<and> read_array (fst (getAllDecks (DeckManager_new 0))) (snd (getAllDecks (DeckManager_new 0))) = [0, 1, 2]
   \<and> read_array (decks (manager (DeckManager_new 0)))
        (write_array (fst (getAllDecks (DeckManager_new 0))) [] (snd (getAllDecks (DeckManager_new 0))))
       = [0, 1, 2]"
proof -
  have a: "decks (manager (DeckManager_new 0)) < length (arrays (heap (DeckManager_new 0)))"
    by (simp add: DeckManager_new_def)
  show ?thesis
    using getAllDecks_copies_the_array_only [OF a] a
    by (simp add: DeckManager_new_def read_array_def)
qed

text \<open>
  C2 (as the specification states it) fails for the deck objects: renaming the first deck
  through the array that \<open>getAllDecks\<close> returned changes the name that a later
  \<open>getDeckById\<close> reads.
\<close>

theorem getAllDecks_shares_decks_counterexample:
  "name_by_id (Num 1) (DeckManager_new 0) = Some ''Spanish Vocabulary''
   \<and> name_by_id (Num 1) renamed_through_getAll = Some ''renamed''"
  by (simp add: name_by_id_def renamed_through_getAll_def getAllDecks_def getDeckById_def
      DeckManager_new_def write_deck_def set_deck_def new_array_def read_array_def Let_def)












lemma clone_decks_manager_free:
  "length (fst (clone_decks ds \<sigma>)) = length ds"
  by (induction ds \<sigma> rule: clone_decks.induct) (simp_all add: Let_def)





















text \<open>
  A \<open>null\<close> entry in the saved deck array: the registry's array is replaced by the clone
  (the deck with id 7 and a \<open>null\<close>), and the counter stays at 4.
\<close>

lemma loadPersistedState_null_example:
  "app_start 65535 (Some saved_with_null) 0
     = Caught [Some 3, None] (the_world (app_start 65535 (Some saved_with_null) 0))
   \<and> deck_id (deck_objs (heap (the_world (app_start 65535 (Some saved_with_null) 0))) ! 3) = Num 7
   \<and> nextId (manager (the_world (app_start 65535 (Some saved_with_null) 0))) = 4"
  by code_simp

section \<open>Properties of study mode\<close>

lemma smod_nonneg: "0 \<le> a \<Longrightarrow> 0 < b \<Longrightarrow> (a :: int) smod b = a mod b"
  by (cases "a = 0") (simp_all add: signed_modulo_int_def)

lemma study_move:
  assumes "studyMode u = Some sm" "active sm" "getDeckById (sm_deckId sm) w = Some deck"
    and "1 \<le> int (length (deck_cards deck w))"
  defines "N \<equiv> int (length (deck_cards deck w))"
  defines "i0 \<equiv> (if currentIndex sm < 0 \<or> currentIndex sm \<ge> N then 0 else currentIndex sm)"
  shows "\<exists>u' sm'. studyModeNext w u = Inr u' \<and> studyMode u' = Some sm' \<and> active sm'
            \<and> sm_deckId sm' = sm_deckId sm \<and> currentIndex sm' = (i0 + 1) mod N"
    and "\<exists>u' sm'. studyModePrevious w u = Inr u' \<and> studyMode u' = Some sm' \<and> active sm'
            \<and> sm_deckId sm' = sm_deckId sm \<and> currentIndex sm' = (i0 - 1 + N) mod N"
proof -
  have N: "1 \<le> N" using assms(4) by (simp add: N_def)
  have i0: "0 \<le> i0" "i0 < N" using N by (auto simp: i0_def)
  have a: "(i0 + 1) smod N = (i0 + 1) mod N" using i0 N by (intro smod_nonneg) auto
  have b: "(i0 - 1 + N) smod N = (i0 - 1 + N) mod N" using i0 N by (intro smod_nonneg) auto
  have ra: "0 \<le> (i0 + 1) mod N" "(i0 + 1) mod N < N" using N by auto
  have rb: "0 \<le> (i0 - 1 + N) mod N" "(i0 - 1 + N) mod N < N" using N by auto
  show "\<exists>u' sm'. studyModeNext w u = Inr u' \<and> studyMode u' = Some sm' \<and> active sm'
            \<and> sm_deckId sm' = sm_deckId sm \<and> currentIndex sm' = (i0 + 1) mod N"
    using assms(1-3) N ra a
    by (simp add: studyModeNext_def Let_def card_at_def renderStudyModeCard_def
        N_def [symmetric] i0_def [symmetric])
  show "\<exists>u' sm'. studyModePrevious w u = Inr u' \<and> studyMode u' = Some sm' \<and> active sm'
            \<and> sm_deckId sm' = sm_deckId sm \<and> currentIndex sm' = (i0 - 1 + N) mod N"
    using assms(1-3) N rb b
    by (simp add: studyModePrevious_def Let_def card_at_def renderStudyModeCard_def
        N_def [symmetric] i0_def [symmetric])
qed

lemma wrap_back: "0 \<le> i \<Longrightarrow> i < N \<Longrightarrow> ((i + 1) mod N - 1 + N) mod N = (i :: int)"
proof (cases "i + 1 < N")
  case True
  assume "0 \<le> i" "i < N"
  with True show ?thesis by simp
next
  case False
  assume a: "0 \<le> i" "i < N"
  with False have "i + 1 = N" by simp
  then have "(i + 1) mod N = 0" by simp
  moreover have "(N - 1) mod N = N - 1" by (rule mod_pos_pos_trivial) (use a in auto)
  ultimately show ?thesis using \<open>i + 1 = N\<close> by (simp del: minus_mod_self2)
qed

lemma wrap_forth: "0 \<le> i \<Longrightarrow> i < N \<Longrightarrow> ((i - 1 + N) mod N + 1) mod N = (i :: int)"
proof (cases "i = 0")
  case True
  assume a: "0 \<le> i" "i < N"
  have "(N - 1) mod N = N - 1" by (rule mod_pos_pos_trivial) (use a True in auto)
  then have "(i - 1 + N) mod N = N - 1" using True by simp
  then show ?thesis by (simp add: True)
next
  case False
  assume a: "0 \<le> i" "i < N"
  with False have "(i - 1 + N) mod N = i - 1" by simp
  then show ?thesis using a by simp
qed

text \<open>
  C5. In an active study session on a deck of \<open>N \<ge> 1\<close> cards: from an index in
  \<open>[0, N)\<close>, \<open>studyModeNext\<close> then \<open>studyModePrevious\<close>, and \<open>studyModePrevious\<close> then
  \<open>studyModeNext\<close>, both return and leave \<open>currentIndex\<close> where it was; \<open>next\<close> moves to
  \<open>(i + 1) mod N\<close> and \<open>previous\<close> to \<open>(i - 1 + N) mod N\<close>; for \<open>N = 1\<close> neither changes
  the index; and an index outside \<open>[0, N)\<close> counts as 0 before the move.
\<close>

theorem study_next_previous_inverse:
  assumes "studyMode u = Some sm" "active sm" "getDeckById (sm_deckId sm) w = Some deck"
    and "N = int (length (deck_cards deck w))" "1 \<le> N"
  shows "(0 \<le> currentIndex sm \<and> currentIndex sm < N \<longrightarrow>
            index_after (and_then (studyModeNext w u) (studyModePrevious w)) = Some (currentIndex sm)
          \<and> index_after (and_then (studyModePrevious w u) (studyModeNext w)) = Some (currentIndex sm)
          \<and> index_after (studyModeNext w u) = Some ((currentIndex sm + 1) mod N)
          \<and> index_after (studyModePrevious w u) = Some ((currentIndex sm - 1 + N) mod N)
          \<and> (N = 1 \<longrightarrow> index_after (studyModeNext w u) = Some (currentIndex sm)
                       \<and> index_after (studyModePrevious w u) = Some (currentIndex sm)))
       \<and> (currentIndex sm < 0 \<or> N \<le> currentIndex sm \<longrightarrow>
            index_after (studyModeNext w u) = Some ((0 + 1) mod N)
          \<and> index_after (studyModePrevious w u) = Some ((0 - 1 + N) mod N))"
proof -
  have len: "1 \<le> int (length (deck_cards deck w))" using assms(4,5) by simp
  let ?i0 = "if currentIndex sm < 0 \<or> currentIndex sm \<ge> N then 0 else currentIndex sm"
  from study_move [OF assms(1-3) len] obtain un sn up sp where
    n: "studyModeNext w u = Inr un" "studyMode un = Some sn" "active sn"
       "sm_deckId sn = sm_deckId sm" "currentIndex sn = (?i0 + 1) mod N" and
    p: "studyModePrevious w u = Inr up" "studyMode up = Some sp" "active sp"
       "sm_deckId sp = sm_deckId sm" "currentIndex sp = (?i0 - 1 + N) mod N"
    unfolding assms(4) by blast
  have dn: "getDeckById (sm_deckId sn) w = Some deck" using n(4) assms(3) by simp
  have dp: "getDeckById (sm_deckId sp) w = Some deck" using p(4) assms(3) by simp
  have rn: "0 \<le> currentIndex sn" "currentIndex sn < N" using n(5) assms(5) by auto
  have rp: "0 \<le> currentIndex sp" "currentIndex sp < N" using p(5) assms(5) by auto
  from study_move(2) [OF n(2,3) dn len] rn obtain unp snp where
    np: "studyModePrevious w un = Inr unp" "studyMode unp = Some snp"
        "currentIndex snp = (currentIndex sn - 1 + N) mod N"
    unfolding assms(4) by auto
  from study_move(1) [OF p(2,3) dp len] rp obtain upn spn where
    pn: "studyModeNext w up = Inr upn" "studyMode upn = Some spn"
        "currentIndex spn = (currentIndex sp + 1) mod N"
    unfolding assms(4) by auto
  have A: "index_after (studyModeNext w u) = Some ((?i0 + 1) mod N)"
    using n by (simp add: index_after_def)
  have B: "index_after (studyModePrevious w u) = Some ((?i0 - 1 + N) mod N)"
    using p by (simp add: index_after_def)
  have C: "index_after (and_then (studyModeNext w u) (studyModePrevious w))
             = Some (((?i0 + 1) mod N - 1 + N) mod N)"
    using n np by (simp add: index_after_def and_then_def)
  have D: "index_after (and_then (studyModePrevious w u) (studyModeNext w))
             = Some (((?i0 - 1 + N) mod N + 1) mod N)"
    using p pn by (simp add: index_after_def and_then_def)
  show ?thesis
  proof (intro conjI impI)
    assume r: "0 \<le> currentIndex sm \<and> currentIndex sm < N"
    then have i: "?i0 = currentIndex sm" by simp
    show "index_after (and_then (studyModeNext w u) (studyModePrevious w)) = Some (currentIndex sm)"
      using C r wrap_back [of "currentIndex sm" N] unfolding i by simp
    show "index_after (and_then (studyModePrevious w u) (studyModeNext w)) = Some (currentIndex sm)"
      using D r wrap_forth [of "currentIndex sm" N] unfolding i by simp
    show "index_after (studyModeNext w u) = Some ((currentIndex sm + 1) mod N)"
      using A unfolding i .
    show "index_after (studyModePrevious w u) = Some ((currentIndex sm - 1 + N) mod N)"
      using B unfolding i .
    assume "N = 1"
    with r have z: "currentIndex sm = 0" by simp
    show "index_after (studyModeNext w u) = Some (currentIndex sm)"
      using A \<open>N = 1\<close> z by simp
    show "index_after (studyModePrevious w u) = Some (currentIndex sm)"
      using B \<open>N = 1\<close> z by simp
  next
    assume o: "currentIndex sm < 0 \<or> N \<le> currentIndex sm"
    then have i: "?i0 = 0" by auto
    show "index_after (studyModeNext w u) = Some ((0 + 1) mod N)"
      using A unfolding i .
    show "index_after (studyModePrevious w u) = Some ((0 - 1 + N) mod N)"
      using B unfolding i .
  qed
qed

theorem study_next_previous_witness:
  "studyMode (studying_at 2) = Some (session_at 2)
   \<and> active (session_at 2)
   \<and> getDeckById (sm_deckId (session_at 2)) three_cards = Some 0
   \<and> int (length (deck_cards 0 three_cards)) = 3
   \<and> index_after (studyModeNext three_cards (studying_at 2)) = Some 0
   \<and> index_after (and_then (studyModeNext three_cards (studying_at 2))
        (studyModePrevious three_cards)) = Some 2
   \<and> index_after (and_then (studyModePrevious three_cards (studying_at 0))
        (studyModeNext three_cards)) = Some 0
   \<and> index_after (studyModeNext three_cards (studying_at 7)) = Some 1"
proof -
  have a: "studyMode (studying_at 2) = Some (session_at 2)" by (simp add: studying_at_def)
  have b: "active (session_at 2)" by (simp add: session_at_def)
  have c: "getDeckById (sm_deckId (session_at 2)) three_cards = Some 0" by code_simp
  have d: "3 = int (length (deck_cards 0 three_cards))" by code_simp
  have e: "index_after (and_then (studyModePrevious three_cards (studying_at 0))
        (studyModeNext three_cards)) = Some 0" by code_simp
  have f: "index_after (studyModeNext three_cards (studying_at 7)) = Some 1" by code_simp
  show ?thesis
    using study_next_previous_inverse [OF a b c d] a b c d e f
    by (simp add: session_at_def)
qed

section \<open>Properties of the search\<close>

lemma ascii_includes_sublist: "ascii_includes s q = sublist q s"
  by (induction s) (simp_all add: sublist_Cons_right)

lemma search_result_eq:
  "timer_fires str (search str cardsArr query callback sm) \<sigma> =
     (if query = [] \<or> trim str query = []
      then (Some \<lparr>report_to = callback, filteredCards = cardsArr,
                   matchCount = length (arrays \<sigma> ! cardsArr)\<rparr>, \<sigma>)
      else (Some \<lparr>report_to = callback, filteredCards = length (arrays \<sigma>),
                   matchCount = length (filter (card_matches str \<sigma> (trim str (toLowerCase str query)))
                                          (arrays \<sigma> ! cardsArr))\<rparr>,
            \<sigma>\<lparr>arrays := arrays \<sigma> @
                   [filter (card_matches str \<sigma> (trim str (toLowerCase str query)))
                      (arrays \<sigma> ! cardsArr)]\<rparr>))"
  by (simp add: timer_fires_def search_def filterCards_def new_array_def Let_def)

text \<open>
  C6 (as the code has it). When the timer set by \<open>search\<close> fires, the callback is called
  once. For a query that is empty, or blank after trimming, it gets the input array itself
  and its length. Otherwise it gets a new array holding, in order, exactly the cards whose
  case-folded \<open>front\<close> or \<open>back\<close> includes the query after it was case-folded and then
  trimmed (\<open>query.toLowerCase().trim()\<close>), and their number. In both cases every card
  object, every deck object and every array that existed, the input array among them, is
  left as it was. This holds whatever \<open>trim\<close>, \<open>toLowerCase\<close> and \<open>includes\<close> do.
\<close>

theorem search_reports:
  "timer_fires str (search str cardsArr query callback sm) \<sigma> =
     (if query = [] \<or> trim str query = []
      then (Some \<lparr>report_to = callback, filteredCards = cardsArr,
                   matchCount = length (arrays \<sigma> ! cardsArr)\<rparr>, \<sigma>)
      else (Some \<lparr>report_to = callback, filteredCards = length (arrays \<sigma>),
                   matchCount = length (filter (card_matches str \<sigma> (trim str (toLowerCase str query)))
                                          (arrays \<sigma> ! cardsArr))\<rparr>,
            \<sigma>\<lparr>arrays := arrays \<sigma> @
                   [filter (card_matches str \<sigma> (trim str (toLowerCase str query)))
                      (arrays \<sigma> ! cardsArr)]\<rparr>))
   \<and> card_matches str \<sigma> q c =
       (str_includes str (toLowerCase str (or_empty (card_front (card_objs \<sigma> ! c)))) q
        \<or> str_includes str (toLowerCase str (or_empty (card_back (card_objs \<sigma> ! c)))) q)
   \<and> card_objs (snd (timer_fires str (search str cardsArr query callback sm) \<sigma>)) = card_objs \<sigma>
   \<and> deck_objs (snd (timer_fires str (search str cardsArr query callback sm) \<sigma>)) = deck_objs \<sigma>
   \<and> take (length (arrays \<sigma>))
        (arrays (snd (timer_fires str (search str cardsArr query callback sm) \<sigma>)))
       = arrays \<sigma>"
  by (simp add: search_result_eq card_matches_def Let_def)

text \<open>
  C6 (as the specification states it) fails for a query with white space around it: for
  the query \<open>" Gato"\<close> the code reports the card \<open>gato\<close>, while no card's case-folded
  field contains the case-folded query \<open>" gato"\<close> itself.
\<close>

theorem search_untrimmed_counterexample:
  "trim ascii_strings '' Gato'' \<noteq> []
   \<and> fst (timer_fires ascii_strings (search ascii_strings 1 '' Gato'' 9 SearchManager_new)
            (heap three_cards))
       = Some \<lparr>report_to = 9, filteredCards = 5, matchCount = 1\<rparr>
   \<and> arrays (snd (timer_fires ascii_strings (search ascii_strings 1 '' Gato'' 9 SearchManager_new)
                    (heap three_cards))) ! 5 = [1]
   \<and> filter (stated_match ascii_strings (heap three_cards) '' Gato'')
        (arrays (heap three_cards) ! 1) = []"
  by code_simp

section \<open>Properties of loading\<close>

lemma default_valid:
  "isValidStateStructure (getDefaultState now)"
  "get_prop (getDefaultState now) ''version'' = JNum (Finite 1)"
  by (simp_all add: isValidStateStructure_def getDefaultState_def get_prop_def json_truthy_def
      typeof_object_def isArray_def)

lemma valid_snapshot_like:
  "isValidStateStructure d \<Longrightarrow> snapshot_like (get_prop d ''selectedDeckId'') d"
  by (cases d) (auto simp: isValidStateStructure_def snapshot_like_def get_prop_def isArray_def
      typeof_object_def)

lemma snapshot_like_valid:
  "snapshot_like sel d \<Longrightarrow> sel = JNull \<or> typeof_number sel \<Longrightarrow> isValidStateStructure d"
  by (cases d) (auto simp: isValidStateStructure_def snapshot_like_def json_truthy_def
      typeof_object_def)

lemma migrateToV1_like:
  "snapshot_like sel d \<Longrightarrow> migrateToV1 now d = Inr d' \<Longrightarrow> snapshot_like sel d'"
  by (cases d)
    (auto simp: migrateToV1_def snapshot_like_def get_prop_def own_props_def isArray_def
      update_conv split: json.splits sum.splits if_splits)

lemma migrate_from_like:
  assumes "migrate_from now v d = Some r"
  shows "\<forall>d'. r = Inr d' \<longrightarrow> snapshot_like sel d \<longrightarrow> snapshot_like sel d'"
proof (rule migrate_from.raw_induct
    [where P = "\<lambda>now v d r. \<forall>d'. r = Inr d' \<longrightarrow> snapshot_like sel d \<longrightarrow> snapshot_like sel d'",
     OF _ assms])
  fix f :: "string \<Rightarrow> number \<Rightarrow> json \<Rightarrow> (js_error + json) option"
  fix now v migratedData y
  assume IH: "\<And>now v d r. f now v d = Some r \<Longrightarrow>
                \<forall>d'. r = Inr d' \<longrightarrow> snapshot_like sel d \<longrightarrow> snapshot_like sel d'"
    and body: "(if le_version v
      then case if v = Finite 1 then migrateToV1 now migratedData else Inr migratedData of
           Inl e \<Rightarrow> Some (Inl e) | Inr d \<Rightarrow> f now (increment v) d
      else Some (Inr migratedData)) = Some y"
  show "\<forall>d'. y = Inr d' \<longrightarrow> snapshot_like sel migratedData \<longrightarrow> snapshot_like sel d'"
  proof (cases "le_version v")
    case False
    with body show ?thesis by auto
  next
    case True
    show ?thesis
    proof (intro allI impI)
      fix d' assume y: "y = Inr d'" and like: "snapshot_like sel migratedData"
      from body True y obtain b where
        b: "(if v = Finite 1 then migrateToV1 now migratedData else Inr migratedData) = Inr b"
           "f now (increment v) b = Some (Inr d')"
        by (auto split: sum.splits)
      have "snapshot_like sel b"
        using b(1) like by (auto split: if_splits dest: migrateToV1_like)
      with IH [OF b(2)] show "snapshot_like sel d'" by blast
    qed
  qed
qed

text \<open>From \<open>-2^53\<close> on the loop variable grows by at least a half in every round.\<close>

lemma migrate_from_returns:
  "counts_up v \<Longrightarrow> \<exists>r. migrate_from now v d = Some r"
proof (induction "case v of Finite x \<Rightarrow> nat \<lceil>2 * (2 - x)\<rceil> | _ \<Rightarrow> 0" arbitrary: v d rule: less_induct)
  case less
  show ?case
  proof (cases "le_version v")
    case False
    then show ?thesis by (simp add: migrate_from.simps [of now v d])
  next
    case True
    with less.prems obtain x where x: "v = Finite x" "x \<le> 1" "- (2 ^ 53) \<le> x"
      by (cases v) (auto simp: le_version_def counts_up_def)
    show ?thesis
    proof (cases "if v = Finite 1 then migrateToV1 now d else Inr d")
      case (Inl e)
      then show ?thesis using True by (simp add: migrate_from.simps [of now v d])
    next
      case (Inr b)
      define y where "y = 2 * (2 - x)"
      define y' where "y' = 2 * (2 - double_succ x)"
      have adv: "x + 1 / 2 \<le> double_succ x" using x(2,3) by (intro double_succ_advances)
      have "nat \<lceil>y'\<rceil> < nat \<lceil>y\<rceil>"
      proof -
        have "y' \<le> y - 1" using adv by (simp add: y_def y'_def)
        then have "\<lceil>y'\<rceil> \<le> \<lceil>y - 1\<rceil>" by (rule ceiling_mono)
        also have "\<dots> = \<lceil>y\<rceil> - 1" by (rule ceiling_diff_one)
        finally have "\<lceil>y'\<rceil> < \<lceil>y\<rceil>" by simp
        moreover have "0 < y" using x(2) by (simp add: y_def)
        then have "0 < \<lceil>y\<rceil>" by (simp only: zero_less_ceiling)
        ultimately show ?thesis by simp
      qed
      moreover have "counts_up (Finite (double_succ x))"
        using double_succ_lower [OF x(3)] by (simp add: counts_up_def)
      ultimately have "\<exists>r. migrate_from now (Finite (double_succ x)) b = Some r"
        using less.hyps [of "Finite (double_succ x)" b] by (simp add: x(1) y_def y'_def)
      then show ?thesis
        using True Inr unfolding x(1)
        by (subst migrate_from.simps) (simp add: increment_def)
    qed
  qed
qed

text \<open>Where \<open>v++\<close> leaves \<open>v\<close> as it is, at or below the current version, the loop never ends.\<close>

lemma migrate_from_stalls:
  assumes "le_version v" "v \<noteq> Finite 1" "increment v = v"
  shows "migrate_from now v d = None"
proof -
  have adm: "option.admissible
               (\<lambda>f :: (string \<times> number) \<times> json \<Rightarrow> (js_error + json) option.
                  \<forall>now d. curry (curry f) now v d = None)"
  proof -
    have "(\<lambda>f :: (string \<times> number) \<times> json \<Rightarrow> (js_error + json) option.
             \<forall>now d. curry (curry f) now v d = None)
          = (\<lambda>f. \<forall>x y. f x = Some y \<longrightarrow> snd (fst x) \<noteq> v)"
      by (auto simp: fun_eq_iff) (metis not_Some_eq)
    then show ?thesis by (simp only: option_admissible)
  qed
  have "\<forall>now d. migrate_from now v d = None"
    by (rule migrate_from.fixp_induct [where P = "\<lambda>f. \<forall>now d. f now v d = None", OF adm])
       (simp_all add: assms)
  then show ?thesis by blast
qed


lemma counts_up_increment:
  assumes "counts_up v"
  shows "counts_up (increment v)"
proof (cases v)
  case (Finite x)
  then have "- (2 ^ 53) \<le> x" using assms by (simp add: counts_up_def)
  then have "- (2 ^ 53) \<le> double_succ x" by (rule double_succ_lower)
  then show ?thesis using Finite by (simp add: counts_up_def increment_def)
next
  case PosInfinity
  then show ?thesis by (simp add: counts_up_def increment_def)
next
  case NegInfinity
  then show ?thesis using assms by (simp add: counts_up_def)
qed

text \<open>A stored numeric version of \<open>-2^53\<close> or more is one from which the loop counts up.\<close>

lemma numeric_version_counts:
  assumes "- (2 ^ 53) \<le> x" "loop_start B (JNum (Finite x)) = Some v"
  shows "counts_up v"
proof -
  have "counts_up (Finite x)" using assms(1) by (simp add: counts_up_def)
  then have "counts_up (increment (Finite x))" by (rule counts_up_increment)
  moreover have "counts_up (Finite 1)" by (simp add: counts_up_def)
  ultimately show ?thesis
    using assms(2) by (auto simp: loop_start_def first_version_def split: if_splits)
qed

lemma set_version_like:
  "snapshot_like sel d \<Longrightarrow>
     snapshot_like sel (JObj (AList.update ''version'' (JNum (Finite 1)) (own_props d)))
     \<and> get_prop (JObj (AList.update ''version'' (JNum (Finite 1)) (own_props d))) ''version''
         = JNum (Finite 1)"
  by (cases d) (auto simp: snapshot_like_def get_prop_def own_props_def update_conv)

lemma migrateState_like:
  assumes "snapshot_like sel data" "migrateState B now data = Some (Inr d')"
  shows "snapshot_like sel d' \<and> get_prop d' ''version'' = JNum (Finite 1)"
proof -
  have m: "snapshot_like sel (JObj (own_props data))"
    using assms(1) by (cases data) (auto simp: snapshot_like_def own_props_def)
  from assms(2) obtain d where
    d: "d' = JObj (AList.update ''version'' (JNum (Finite 1)) (own_props d))"
    and l: "snapshot_like sel d"
    using m
    by (auto simp: migrateState_def Let_def split: sum.splits json.splits option.splits if_splits
        dest: migrate_from_like migrateToV1_like)
  then show ?thesis using set_version_like by blast
qed

lemma migrateState_returns:
  assumes "case loop_start B (get_prop data ''version'') of Some v \<Rightarrow> counts_up v | None \<Rightarrow> True"
  shows "\<exists>r. migrateState B now data = Some r"
proof -
  let ?m = "JObj (own_props data)"
  have "\<exists>r. (case first_version B (get_prop data ''version'') of
               JNum v \<Rightarrow> migrate_from now v ?m
             | JStr s \<Rightarrow>
                 (case ToNumber B s of
                    None \<Rightarrow> Some (Inr ?m)
                  | Some v \<Rightarrow>
                      if le_version v
                      then (case (if s = ''1'' then migrateToV1 now ?m else Inr ?m) of
                              Inl e \<Rightarrow> Some (Inl e)
                            | Inr d \<Rightarrow> migrate_from now (increment v) d)
                      else Some (Inr ?m))
             | _ \<Rightarrow> Some (Inr ?m)) = Some r"
  proof (cases "first_version B (get_prop data ''version'')")
    case (JNum v)
    then have "counts_up v" using assms by (simp add: loop_start_def)
    then show ?thesis using JNum migrate_from_returns [of v now ?m] by simp
  next
    case (JStr s)
    show ?thesis
    proof (cases "ToNumber B s")
      case None
      then show ?thesis using JStr by simp
    next
      case (Some v)
      then have "counts_up (increment v)"
        using assms JStr by (simp add: loop_start_def counts_up_increment)
      then have "\<And>d. \<exists>r. migrate_from now (increment v) d = Some r"
        by (rule migrate_from_returns)
      then show ?thesis using JStr Some by (auto split: sum.splits)
    qed
  qed simp_all
  then show ?thesis
    by (auto simp: migrateState_def Let_def split: sum.splits)
qed

lemma json_clone_undefined: "json_clone x = JUndefined \<longleftrightarrow> x = JUndefined"
  by (cases x) (simp_all split: number.splits)

lemma map_of_clone:
  "map_of kvs k = Some v \<Longrightarrow> v \<noteq> JUndefined \<Longrightarrow>
     map_of (filter (\<lambda>kv. snd kv \<noteq> JUndefined) (map (map_prod id json_clone) kvs)) k
       = Some (json_clone v)"
  by (induction kvs) (auto simp: json_clone_undefined)

lemma get_prop_clone:
  "get_prop (JObj kvs) k = v \<Longrightarrow> v \<noteq> JUndefined \<Longrightarrow>
     get_prop (json_clone (JObj kvs)) k = json_clone v"
  by (auto simp: get_prop_def map_of_clone split: option.splits)

lemma clone_like:
  assumes "snapshot_like sel d" "sel = JNull \<or> typeof_number sel"
  shows "snapshot_like (json_clone sel) (json_clone d)"
proof -
  from assms(1) obtain kvs where d: "d = JObj kvs" by (cases d) (auto simp: snapshot_like_def)
  from assms(1) obtain ds where ds: "get_prop (JObj kvs) ''decks'' = JArr ds"
    unfolding d by (cases "get_prop (JObj kvs) ''decks''") (auto simp: snapshot_like_def isArray_def)
  have s: "get_prop (JObj kvs) ''selectedDeckId'' = sel"
    using assms(1) unfolding d by (simp add: snapshot_like_def)
  have "sel \<noteq> JUndefined"
    using assms(2) by (cases sel; auto simp: typeof_number_def)
  with get_prop_clone [OF s]
  have "get_prop (json_clone (JObj kvs)) ''selectedDeckId'' = json_clone sel"
    by simp
  moreover from get_prop_clone [OF ds] have "isArray (get_prop (json_clone (JObj kvs)) ''decks'')"
    by (simp add: isArray_def)
  ultimately show ?thesis unfolding d by (simp add: snapshot_like_def)
qed

lemma clone_selection:
  "sel = JNull \<or> typeof_number sel \<Longrightarrow> json_clone sel = JNull \<or> typeof_number (json_clone sel)"
  by (cases sel) (auto simp: typeof_number_def split: number.splits)

lemma clone_version:
  "get_prop d ''version'' = JNum (Finite 1) \<Longrightarrow> get_prop (json_clone d) ''version'' = JNum (Finite 1)"
  by (cases d) (auto simp: get_prop_def map_of_clone split: option.splits)

lemma loadState_try_cases:
  assumes "loadState_try B S now = Some (Inr s)"
  shows "s = getDefaultState now
     \<or> (\<exists>raw p. ls_available S \<and> ls_getItem S = Inr (Some raw) \<and> raw \<noteq> []
           \<and> JSON_parse B raw = Some p \<and> isValidStateStructure p
           \<and> ((get_prop p ''version'' = JNum (Finite 1) \<and> s = json_clone p)
               \<or> (get_prop p ''version'' \<noteq> JNum (Finite 1)
                   \<and> (\<exists>d. migrateState B now p = Some (Inr d) \<and> s = json_clone d))))"
  using assms
  by (auto simp: loadState_try_def split: if_splits sum.splits option.splits)

lemma loadState_try_returns:
  assumes "migration_counts B S"
  shows "\<exists>r. loadState_try B S now = Some r"
proof (cases "\<exists>raw p. ls_getItem S = Inr (Some raw) \<and> JSON_parse B raw = Some p")
  case False
  then show ?thesis
    by (auto simp: loadState_try_def split: sum.splits option.splits)
next
  case True
  then obtain raw p where p: "ls_getItem S = Inr (Some raw)" "JSON_parse B raw = Some p" by blast
  have "case loop_start B (get_prop p ''version'') of Some v \<Rightarrow> counts_up v | None \<Rightarrow> True"
    using assms p by (simp add: migration_counts_def)
  from migrateState_returns [OF this, of now] obtain r where "migrateState B now p = Some r"
    by blast
  then show ?thesis using p
    by (auto simp: loadState_try_def split: sum.splits option.splits)
qed

lemma loadState_stored:
  assumes "loadState_try B S now = Some (Inr s)" "s \<noteq> getDefaultState now"
  shows "\<exists>raw p. ls_available S \<and> ls_getItem S = Inr (Some raw)
           \<and> JSON_parse B raw = Some p \<and> isValidStateStructure p
           \<and> snapshot_like (json_clone (get_prop p ''selectedDeckId'')) s
           \<and> get_prop s ''version'' = JNum (Finite 1)
           \<and> (get_prop p ''version'' = JNum (Finite 1) \<longrightarrow> s = json_clone p)"
proof -
  from loadState_try_cases [OF assms(1)] assms(2) obtain raw p where
    p: "ls_available S" "ls_getItem S = Inr (Some raw)" "JSON_parse B raw = Some p"
       "isValidStateStructure p" and
    c: "(get_prop p ''version'' = JNum (Finite 1) \<and> s = json_clone p)
        \<or> (get_prop p ''version'' \<noteq> JNum (Finite 1)
            \<and> (\<exists>d. migrateState B now p = Some (Inr d) \<and> s = json_clone d))"
    by blast
  let ?sel = "get_prop p ''selectedDeckId''"
  have sel: "?sel = JNull \<or> typeof_number ?sel"
    using p(4) by (simp add: isValidStateStructure_def)
  have like: "snapshot_like ?sel p" using p(4) by (rule valid_snapshot_like)
  from c have "snapshot_like (json_clone ?sel) s \<and> get_prop s ''version'' = JNum (Finite 1)"
  proof
    assume "get_prop p ''version'' = JNum (Finite 1) \<and> s = json_clone p"
    then show ?thesis using clone_like [OF like sel] clone_version by simp
  next
    assume "get_prop p ''version'' \<noteq> JNum (Finite 1)
            \<and> (\<exists>d. migrateState B now p = Some (Inr d) \<and> s = json_clone d)"
    then obtain d where d: "migrateState B now p = Some (Inr d)" "s = json_clone d" by blast
    from migrateState_like [OF like d(1)] show ?thesis
      unfolding d(2) using clone_like [OF _ sel] clone_version by blast
  qed
  with p c show ?thesis by blast
qed

text \<open>
  C7 (as the code has it). Suppose that whatever is stored and parses has a \<open>version\<close>
  from which the migration loop counts up: the loop does not start below \<open>-2^53\<close> (a
  stored numeric version of \<open>-2^53\<close> or more is enough, lemma \<open>numeric_version_counts\<close>).
  Then \<open>loadState\<close> returns, and an exception raised inside it never leaves it. The result
  passes \<open>isValidStateStructure\<close> (an object whose \<open>decks\<close> is an array and whose
  \<open>selectedDeckId\<close> is \<open>null\<close> or a number, integer or not) and has \<open>version\<close> 1. It is
  the empty default, or it comes from a stored text that parsed and passed the same
  validation, has that snapshot's \<open>selectedDeckId\<close> as the JSON round trip leaves it, and
  is the round trip of the whole snapshot when its version was current. Whatever is
  stored, the result is the default whenever the body of \<open>loadState\<close> throws, the storage is
  unavailable, \<open>getItem\<close> throws, the slot is missing or empty, the text is not JSON, or
  the parsed value fails the validation.
\<close>

theorem loadState_fails_soft:
  "(migration_counts B S \<longrightarrow>
      (\<exists>s. loadState B S now = Some s
         \<and> isValidStateStructure s
         \<and> get_prop s ''version'' = JNum (Finite 1)
         \<and> (s = getDefaultState now
             \<or> (\<exists>raw p. ls_available S \<and> ls_getItem S = Inr (Some raw)
                   \<and> JSON_parse B raw = Some p \<and> isValidStateStructure p
                   \<and> get_prop s ''selectedDeckId'' = json_clone (get_prop p ''selectedDeckId'')
                   \<and> (get_prop p ''version'' = JNum (Finite 1) \<longrightarrow> s = json_clone p)))))
   \<and> (\<forall>e. loadState_try B S now = Some (Inl e) \<longrightarrow> loadState B S now = Some (getDefaultState now))
   \<and> (\<not> ls_available S \<longrightarrow> loadState B S now = Some (getDefaultState now))
   \<and> (ls_available S \<and> (\<exists>e. ls_getItem S = Inl e) \<longrightarrow>
        loadState B S now = Some (getDefaultState now))
   \<and> (ls_getItem S = Inr None \<or> ls_getItem S = Inr (Some []) \<longrightarrow>
        loadState B S now = Some (getDefaultState now))
   \<and> (\<forall>raw. ls_getItem S = Inr (Some raw) \<and> JSON_parse B raw = None \<longrightarrow>
        loadState B S now = Some (getDefaultState now))
   \<and> (\<forall>raw p. ls_getItem S = Inr (Some raw) \<and> JSON_parse B raw = Some p
        \<and> \<not> isValidStateStructure p \<longrightarrow> loadState B S now = Some (getDefaultState now))"
proof -
  have main: "migration_counts B S \<longrightarrow>
      (\<exists>s. loadState B S now = Some s
         \<and> isValidStateStructure s
         \<and> get_prop s ''version'' = JNum (Finite 1)
         \<and> (s = getDefaultState now
             \<or> (\<exists>raw p. ls_available S \<and> ls_getItem S = Inr (Some raw)
                   \<and> JSON_parse B raw = Some p \<and> isValidStateStructure p
                   \<and> get_prop s ''selectedDeckId'' = json_clone (get_prop p ''selectedDeckId'')
                   \<and> (get_prop p ''version'' = JNum (Finite 1) \<longrightarrow> s = json_clone p))))"
  proof
    assume "migration_counts B S"
    from loadState_try_returns [OF this, of now] obtain r where r: "loadState_try B S now = Some r"
      by blast
    show "\<exists>s. loadState B S now = Some s
         \<and> isValidStateStructure s
         \<and> get_prop s ''version'' = JNum (Finite 1)
         \<and> (s = getDefaultState now
             \<or> (\<exists>raw p. ls_available S \<and> ls_getItem S = Inr (Some raw)
                   \<and> JSON_parse B raw = Some p \<and> isValidStateStructure p
                   \<and> get_prop s ''selectedDeckId'' = json_clone (get_prop p ''selectedDeckId'')
                   \<and> (get_prop p ''version'' = JNum (Finite 1) \<longrightarrow> s = json_clone p)))"
    proof (cases r)
      case (Inl e)
      then show ?thesis using r by (simp add: loadState_def default_valid)
    next
      case (Inr s)
      then have ls: "loadState B S now = Some s" using r by (simp add: loadState_def)
      have tr: "loadState_try B S now = Some (Inr s)" using r Inr by simp
      show ?thesis
      proof (cases "s = getDefaultState now")
        case True
        then show ?thesis unfolding ls by (simp add: default_valid)
      next
        case False
        from loadState_stored [OF tr False] obtain raw p where
          p: "ls_available S" "ls_getItem S = Inr (Some raw)" "JSON_parse B raw = Some p"
             "isValidStateStructure p"
             "snapshot_like (json_clone (get_prop p ''selectedDeckId'')) s"
             "get_prop s ''version'' = JNum (Finite 1)"
             "get_prop p ''version'' = JNum (Finite 1) \<longrightarrow> s = json_clone p"
          by blast
        have "get_prop p ''selectedDeckId'' = JNull \<or> typeof_number (get_prop p ''selectedDeckId'')"
          using p(4) by (simp add: isValidStateStructure_def)
        then have "json_clone (get_prop p ''selectedDeckId'') = JNull
                   \<or> typeof_number (json_clone (get_prop p ''selectedDeckId''))"
          by (rule clone_selection)
        with p(5) have "isValidStateStructure s" by (rule snapshot_like_valid)
        moreover have "get_prop s ''selectedDeckId'' = json_clone (get_prop p ''selectedDeckId'')"
          using p(5) by (simp add: snapshot_like_def)
        ultimately show ?thesis unfolding ls using p by blast
      qed
    qed
  qed
  have "\<forall>e. loadState_try B S now = Some (Inl e) \<longrightarrow> loadState B S now = Some (getDefaultState now)"
    by (simp add: loadState_def)
  moreover have "\<not> ls_available S \<longrightarrow> loadState B S now = Some (getDefaultState now)"
    by (simp add: loadState_def loadState_try_def)
  moreover have "ls_available S \<and> (\<exists>e. ls_getItem S = Inl e) \<longrightarrow>
        loadState B S now = Some (getDefaultState now)"
    by (auto simp: loadState_def loadState_try_def)
  moreover have "ls_getItem S = Inr None \<or> ls_getItem S = Inr (Some []) \<longrightarrow>
        loadState B S now = Some (getDefaultState now)"
    by (auto simp: loadState_def loadState_try_def)
  moreover have "\<forall>raw. ls_getItem S = Inr (Some raw) \<and> JSON_parse B raw = None \<longrightarrow>
        loadState B S now = Some (getDefaultState now)"
    by (auto simp: loadState_def loadState_try_def)
  moreover have "\<forall>raw p. ls_getItem S = Inr (Some raw) \<and> JSON_parse B raw = Some p
        \<and> \<not> isValidStateStructure p \<longrightarrow> loadState B S now = Some (getDefaultState now)"
    by (auto simp: loadState_def loadState_try_def)
  ultimately show ?thesis using main by blast
qed

theorem loadState_fails_soft_witness:
  "migration_counts example_builtins (holding stored_old)
   \<and> ls_available (holding stored_old)
   \<and> ls_getItem (holding stored_old) = Inr (Some stored_old)
   \<and> JSON_parse example_builtins stored_old
       = Some (JObj [(''decks'', JArr [JObj [(''id'', JNum (Finite 4)), (''name'', JStr ''Old'')]]),
                     (''selectedDeckId'', JNum (Finite 4))])
   \<and> loadState example_builtins (holding stored_old) ''t''
       = Some (JObj [(''decks'', JArr [JObj [(''id'', JNum (Finite 4)), (''name'', JStr ''Old''),
                                             (''cards'', JArr []), (''createdAt'', JStr ''t'')]]),
                     (''selectedDeckId'', JNum (Finite 4)), (''version'', JNum (Finite 1))])
   \<and> \<not> ls_available unavailable
   \<and> loadState example_builtins unavailable ''t'' = Some (getDefaultState ''t'')"
proof -
  have m: "migration_counts example_builtins (holding stored_old)" by code_simp
  have a: "ls_available (holding stored_old)" by (simp add: holding_def)
  have b: "ls_getItem (holding stored_old) = Inr (Some stored_old)" by (simp add: holding_def)
  have c: "JSON_parse example_builtins stored_old
       = Some (JObj [(''decks'', JArr [JObj [(''id'', JNum (Finite 4)), (''name'', JStr ''Old'')]]),
                     (''selectedDeckId'', JNum (Finite 4))])" by code_simp
  have d: "loadState example_builtins (holding stored_old) ''t''
       = Some (JObj [(''decks'', JArr [JObj [(''id'', JNum (Finite 4)), (''name'', JStr ''Old''),
                                             (''cards'', JArr []), (''createdAt'', JStr ''t'')]]),
                     (''selectedDeckId'', JNum (Finite 4)), (''version'', JNum (Finite 1))])"
    by code_simp
  have e: "\<not> ls_available unavailable" by (simp add: unavailable_def)
  show ?thesis
    using loadState_fails_soft [of example_builtins "holding stored_old" "''t''"]
      loadState_fails_soft [of example_builtins unavailable "''t''"] m a b c d e
    by blast
qed

text \<open>
  A stored version of \<open>-1e16\<close>: \<open>-1e16 + 1\<close> rounds back to \<open>-1e16\<close>, so the loop
  variable never gets past the current version and \<open>loadState\<close> does not return.
\<close>

lemma loadState_stalls_example:
  "loadState example_builtins (holding stored_stalling) ''t'' = None"
proof -
  let ?p = "JObj [(''version'', JNum (Finite (- 10000000000000000))), (''decks'', JArr []),
                  (''selectedDeckId'', JNull)]"
  have p: "JSON_parse example_builtins stored_stalling = Some ?p" by code_simp
  have ne: "stored_stalling \<noteq> []" by code_simp
  have valid: "isValidStateStructure ?p" by code_simp
  have ver: "get_prop ?p ''version'' = JNum (Finite (- 10000000000000000))" by code_simp
  have fv: "first_version example_builtins (JNum (Finite (- 10000000000000000)))
              = JNum (Finite (- 10000000000000000))" by code_simp
  have stall: "\<And>d. migrate_from ''t'' (Finite (- 10000000000000000)) d = None"
    by (rule migrate_from_stalls) code_simp+
  have "migrateState example_builtins ''t'' ?p = None"
    unfolding migrateState_def ver fv by (simp add: stall)
  then show ?thesis
    unfolding loadState_def loadState_try_def
    by (simp add: holding_def p ne valid ver)
qed

text \<open>
  C7 (as the specification states it) fails in two ways. For a stored snapshot whose
  \<open>selectedDeckId\<close> is a number but not an integer, \<open>isValidStateStructure\<close> tests
  \<open>typeof data.selectedDeckId === "number"\<close>, so the snapshot is returned as it is, not
  replaced by the default. And for a stored snapshot whose version is \<open>-1e16\<close>,
  \<open>loadState\<close> returns nothing at all.
\<close>

theorem loadState_counterexample:
  "JSON_parse example_builtins stored_fractional
       = Some (JObj [(''version'', JNum (Finite 1)), (''decks'', JArr []),
                     (''selectedDeckId'', JNum (Finite (3 / 2)))])
   \<and> loadState example_builtins (holding stored_fractional) ''t''
       = Some (JObj [(''version'', JNum (Finite 1)), (''decks'', JArr []),
                     (''selectedDeckId'', JNum (Finite (3 / 2)))])
   \<and> \<not> stated_well_formed (JObj [(''version'', JNum (Finite 1)), (''decks'', JArr []),
                                   (''selectedDeckId'', JNum (Finite (3 / 2)))])
   \<and> JSON_parse example_builtins stored_stalling
       = Some (JObj [(''version'', JNum (Finite (- 10000000000000000))), (''decks'', JArr []),
                     (''selectedDeckId'', JNull)])
   \<and> loadState example_builtins (holding stored_stalling) ''t'' = None"
proof -
  have "JSON_parse example_builtins stored_fractional
       = Some (JObj [(''version'', JNum (Finite 1)), (''decks'', JArr []),
                     (''selectedDeckId'', JNum (Finite (3 / 2)))])" by code_simp
  moreover have "loadState example_builtins (holding stored_fractional) ''t''
       = Some (JObj [(''version'', JNum (Finite 1)), (''decks'', JArr []),
                     (''selectedDeckId'', JNum (Finite (3 / 2)))])" by code_simp
  moreover have "\<not> stated_well_formed (JObj [(''version'', JNum (Finite 1)), (''decks'', JArr []),
                                   (''selectedDeckId'', JNum (Finite (3 / 2)))])" by code_simp
  moreover have "JSON_parse example_builtins stored_stalling
       = Some (JObj [(''version'', JNum (Finite (- 10000000000000000))), (''decks'', JArr []),
                     (''selectedDeckId'', JNull)])" by code_simp
  ultimately show ?thesis using loadState_stalls_example by blast
qed

section \<open>Properties of the modal\<close>

text \<open>
  In \<open>app.js\<close>, \<open>open\<close> moves focus in a state in which the trap is already active and
  the \<open>keydown\<close> listener attached.
\<close>

lemma starts_open_body:
  "(s, q) \<in> set (starts (open_body t) p) \<Longrightarrow> s = FocusInputOrFirst \<Longrightarrow>
     focusTrapActive q \<and> keydown_attached q"
  by (auto simp: open_body_def)

lemma modal_open_active:
  "FocusInputOrFirst \<in> set (open_body t)"
  "map fst (starts (open_body t) p) = open_body t"
  "focusTrapActive (modal_open t p) \<and> keydown_attached (modal_open t p)"
  by (auto simp: open_body_def modal_open_def run_body_def focus_def split: list.splits option.splits)

text \<open>
  C8. The standalone module does not keep the order: its \<open>open\<close> moves focus into the
  dialog as its fourth statement, in a state in which \<open>focusTrapActive\<close> is false and
  the listener is not attached, and attaches the listener and sets the flag only afterwards.
\<close>

theorem open_standalone_focuses_before_activating:
  "map fst (starts (open_body_standalone (Some 1)) deck_modal) = open_body_standalone (Some 1)
   \<and> fst (starts (open_body_standalone (Some 1)) deck_modal ! 3) = FocusFirst
   \<and> focusTrapActive (snd (starts (open_body_standalone (Some 1)) deck_modal ! 3)) = False
   \<and> keydown_attached (snd (starts (open_body_standalone (Some 1)) deck_modal ! 3)) = False
   \<and> fst (starts (open_body_standalone (Some 1)) deck_modal ! 4) = AttachKeydown
   \<and> activeElement (snd (starts (open_body_standalone (Some 1)) deck_modal ! 4)) = 10
   \<and> keydown_attached (snd (starts (open_body_standalone (Some 1)) deck_modal ! 4)) = False
   \<and> focusTrapActive (snd (starts (open_body_standalone (Some 1)) deck_modal ! 4)) = False"
  by code_simp

text \<open>
  In \<open>app.js\<close>, every Tab press while the trap is active computes the focusable elements
  anew, whatever list is stored; it cancels the default action when there are none, wraps
  from the last to the first and, with Shift, from the first to the last, and otherwise
  neither moves focus nor cancels the default action. (The dialog element is not one of
  the elements inside it.)
\<close>

lemma getFocusableElements_cache [simp]:
  "getFocusableElements (p\<lparr>focusableElements := cached\<rparr>) = getFocusableElements p"
  by (simp add: getFocusableElements_def is_visible_def)

lemma getFocusableElements_inside:
  "set (getFocusableElements p) \<subseteq> fst ` set (modal_content p)"
  by (auto simp: getFocusableElements_def)

lemma trapFocus_recomputes:
  assumes "focusTrapActive p" "keydown_attached p" "key e = ''Tab''"
    and "modal_el p \<notin> fst ` set (modal_content p)"
  shows "keydown e (p\<lparr>focusableElements := cached\<rparr>) = keydown e p"
    and "focusableElements (fst (keydown e p)) = getFocusableElements p"
    and "getFocusableElements p = [] \<Longrightarrow>
           snd (keydown e p) \<and> activeElement (fst (keydown e p)) = activeElement p"
    and "getFocusableElements p \<noteq> [] \<Longrightarrow> \<not> shiftKey e \<Longrightarrow>
           activeElement p = last (getFocusableElements p) \<Longrightarrow>
           snd (keydown e p) \<and> activeElement (fst (keydown e p)) = hd (getFocusableElements p)"
    and "getFocusableElements p \<noteq> [] \<Longrightarrow> shiftKey e \<Longrightarrow>
           activeElement p = hd (getFocusableElements p) \<Longrightarrow>
           snd (keydown e p) \<and> activeElement (fst (keydown e p)) = last (getFocusableElements p)"
    and "getFocusableElements p \<noteq> [] \<Longrightarrow>
           (if shiftKey e then activeElement p \<noteq> hd (getFocusableElements p)
            else activeElement p \<noteq> last (getFocusableElements p)) \<Longrightarrow>
           \<not> snd (keydown e p) \<and> activeElement (fst (keydown e p)) = activeElement p"
proof -
  have "modal_el p \<notin> set (getFocusableElements p)"
    using assms(4) getFocusableElements_inside [of p] by blast
  then have h: "getFocusableElements p \<noteq> [] \<Longrightarrow>
      hd (getFocusableElements p) \<noteq> modal_el p \<and> last (getFocusableElements p) \<noteq> modal_el p"
    by (metis hd_in_set last_in_set)
  show "keydown e (p\<lparr>focusableElements := cached\<rparr>) = keydown e p"
    and "focusableElements (fst (keydown e p)) = getFocusableElements p"
    and "getFocusableElements p = [] \<Longrightarrow>
           snd (keydown e p) \<and> activeElement (fst (keydown e p)) = activeElement p"
    and "getFocusableElements p \<noteq> [] \<Longrightarrow> \<not> shiftKey e \<Longrightarrow>
           activeElement p = last (getFocusableElements p) \<Longrightarrow>
           snd (keydown e p) \<and> activeElement (fst (keydown e p)) = hd (getFocusableElements p)"
    and "getFocusableElements p \<noteq> [] \<Longrightarrow> shiftKey e \<Longrightarrow>
           activeElement p = hd (getFocusableElements p) \<Longrightarrow>
           snd (keydown e p) \<and> activeElement (fst (keydown e p)) = last (getFocusableElements p)"
    and "getFocusableElements p \<noteq> [] \<Longrightarrow>
           (if shiftKey e then activeElement p \<noteq> hd (getFocusableElements p)
            else activeElement p \<noteq> last (getFocusableElements p)) \<Longrightarrow>
           \<not> snd (keydown e p) \<and> activeElement (fst (keydown e p)) = activeElement p"
    using assms(1-3) h
    by (auto simp: keydown_def handleKeyDown_def trapFocus_def Let_def focus_def
        split: list.splits if_splits)
qed

text \<open>
  C9. The standalone module works from the list that \<open>open\<close> stored. After a second
  button has been added to the dialog, Tab on it (now the last focusable element) is
  compared with the stored list, which ends with the first button: the press is not
  cancelled and focus is not moved to the first element. With nothing focusable in the
  dialog, \<open>trapFocus\<close> is not called at all and Tab is not cancelled.
\<close>

theorem trapFocus_standalone_uses_stored_list:
  "getFocusableElements_standalone grown_after_open = [10, 13]
   \<and> focusableElements grown_after_open = [10]
   \<and> activeElement grown_after_open = 13
   \<and> snd (keydown_standalone tab_key grown_after_open) = False
   \<and> activeElement (fst (keydown_standalone tab_key grown_after_open)) = 13
   \<and> focusableElements (fst (keydown_standalone tab_key grown_after_open)) = [10]
   \<and> getFocusableElements_standalone opened_empty = []
   \<and> snd (keydown_standalone tab_key opened_empty) = False"
  by code_simp

text \<open>The class in \<open>app.js\<close> on the same two inputs: it wraps, and it cancels.\<close>

lemma trapFocus_same_inputs:
  "snd (keydown tab_key
      ((modal_open (Some 1) (closed_modal [(10, a_button)]))
         \<lparr>modal_content := [(10, a_button), (13, a_button)], activeElement := 13\<rparr>)) = True
   \<and> activeElement (fst (keydown tab_key
      ((modal_open (Some 1) (closed_modal [(10, a_button)]))
         \<lparr>modal_content := [(10, a_button), (13, a_button)], activeElement := 13\<rparr>))) = 10
   \<and> snd (keydown tab_key (modal_open (Some 1) (closed_modal []))) = True"
  by code_simp

end
